theory Spec2Isabelle
  imports
    Complex_Main
    "HOL-Library.AList"
    "HOL-Library.Char_ord"
    "HOL-Library.List_Lexorder"
    "HOL-Library.Product_Lexorder"
begin

text \<open>
  A shallow embedding of the FactSheet primitive of the weavlet repository: the merge
  engine (\<^verbatim>\<open>conflict.ts\<close>), the in-memory storage adapter (\<^verbatim>\<open>adapters/memory.ts\<close>), and
  the orchestrator (\<^verbatim>\<open>factsheet.ts\<close>) with its extras sanitizer, idempotency cache and
  retry loop, followed by the properties proved of them.

  How the TypeScript is read:
  \<^item> timestamps and listed priorities are integers, confidences are reals (no NaN),
    lengths and counts are natural numbers; a string is the list of its characters;
  \<^item> an object used as a dictionary (profile, provenance, source priorities, the
    schema's shape) is the partial map of its own entries; the lookup of a source's
    priority also sees the members every plain object inherits (\<open>priorityOf\<close>); an
    object whose entry order matters (the extras value, the facts of a patch, the
    idempotency cache) is a list of entries;
  \<^item> a thrown error is the left summand of the result, and every function that
    mutates the adapter or the cache returns the new state;
  \<^item> the clock, the host's collation of strings, the extractor's answer, the random
    request id and what other tasks do to the store during an \<^verbatim>\<open>await\<close> are inputs
    of the call;
  \<^item> the Zod schema is kept as, per declared field, its parse function and its
    nullability; event emission and logging, which change no state, are left out.
\<close>

section \<open>FactSheet: values, provenance, candidates, policy\<close>

text \<open>
  A profile value is \<^verbatim>\<open>unknown\<close> in the TypeScript source: any JSON-shaped
  JavaScript value, or \<^verbatim>\<open>undefined\<close>. Numbers are reals; \<open>JNonFinite\<close> stands
  for the three numbers that \<^verbatim>\<open>Number.isFinite\<close> refuses (NaN and the two infinities).
  An object is the list of its entries in \<^verbatim>\<open>Object.entries\<close> order.
\<close>

datatype jvalue =
    JUndefined
  | JNull
  | JBool bool
  | JNum real
  | JNonFinite
  | JStr string
  | JArr "jvalue list"
  | JObj "(string \<times> jvalue) list"

text \<open>types.ts: \<^verbatim>\<open>Provenance\<close>.\<close>

record provenance =
  p_value :: jvalue
  p_source :: string
  p_timestamp :: int
  p_confidence :: real
  p_inferred :: bool

datatype rejection_reason =
    schema_invalid
  | unknown_field
  | low_confidence
  | lower_priority
  | outside_recency
  | older_timestamp
  | not_nullable
  | extras_invalid

datatype history_action = ActSet | ActDelete | ActRejected

text \<open>types.ts: \<^verbatim>\<open>HistoryEntry\<close>. \<open>h_previousValue\<close> is the lookup
  \<^verbatim>\<open>mergedProfile[field]\<close>, absent when the profile has no such key.\<close>

record history_entry =
  h_field :: string
  h_value :: jvalue
  h_previousValue :: "jvalue option"
  h_source :: string
  h_timestamp :: int
  h_confidence :: real
  h_inferred :: bool
  h_action :: history_action
  h_reason :: "rejection_reason option"

text \<open>types.ts: \<^verbatim>\<open>RejectedField\<close> (the diagnostic \<^verbatim>\<open>details\<close> of the schema
  library are not modelled).\<close>

record rejected_field =
  r_field :: string
  r_value :: jvalue
  r_reason :: rejection_reason

text \<open>The candidates handed to the merge engine:
  \<^verbatim>\<open>ExtractorCandidate & { source: string }\<close>; only the timestamp is optional.\<close>

record candidate =
  c_field :: string
  c_value :: jvalue
  c_confidence :: real
  c_inferred :: bool
  c_timestamp :: "int option"
  c_source :: string

text \<open>types.ts: \<^verbatim>\<open>ExtrasPolicy\<close>, every property optional. The key pattern is a
  regular expression in the source; here it is the predicate \<^verbatim>\<open>keyPattern.test\<close>.\<close>

record extras_policy =
  keyPattern :: "(string \<Rightarrow> bool) option"
  maxKeyLength :: "nat option"
  maxStringLength :: "nat option"
  allowArrays :: "bool option"
  allowNestedObjects :: "bool option"
  maxNestingDepth :: "nat option"
  maxArrayLength :: "nat option"

text \<open>types.ts: \<^verbatim>\<open>ConflictPolicy\<close>. \<open>sourcePriority\<close> holds the own entries of the
  priority object, integers; the lengths, counts and the recency window of a policy are
  natural numbers (the source types them \<^verbatim>\<open>number\<close>; negative or fractional limits are
  outside this model).\<close>

record conflict_policy =
  sourcePriority :: "string \<rightharpoonup> int"
  minConfidence :: real
  recencyWindowMs :: nat
  maxFieldLength :: nat
  extrasMaxKeys :: nat
  extrasPolicy :: "extras_policy option"

section \<open>utils.ts\<close>

text \<open>\<^verbatim>\<open>truncateValue\<close>: only a top-level string is cut.\<close>

definition truncateValue :: "jvalue \<Rightarrow> nat \<Rightarrow> jvalue" where
  "truncateValue v maxLength =
     (case v of
        JStr s \<Rightarrow> (if length s > maxLength then JStr (take maxLength s) else v)
      | _ \<Rightarrow> v)"

section \<open>conflict.ts: the merge engine\<close>

record merge_input =
  mi_profile :: "string \<rightharpoonup> jvalue"
  mi_provenance :: "string \<rightharpoonup> provenance"
  mi_candidates :: "candidate list"
  mi_policy :: conflict_policy
  mi_allowNull :: "string \<Rightarrow> bool"
  mi_skipRecencyCheck :: bool

text \<open>\<^verbatim>\<open>MergeResult\<close>; the same record is the state of the loop over the sorted
  candidates (\<^verbatim>\<open>mergedProfile\<close>, \<^verbatim>\<open>mergedProv\<close>, \<^verbatim>\<open>updated\<close>, \<^verbatim>\<open>rejected\<close>,
  \<^verbatim>\<open>history\<close>).\<close>

record merge_result =
  profile :: "string \<rightharpoonup> jvalue"
  provenance :: "string \<rightharpoonup> provenance"
  updated :: "string \<rightharpoonup> jvalue"
  rejected :: "rejected_field list"
  history :: "history_entry list"

text \<open>
  \<^verbatim>\<open>priorityOf\<close> is \<^verbatim>\<open>policy.sourcePriority[source] ?? 0\<close>, a property lookup on a plain
  object (an object literal in \<^verbatim>\<open>DEFAULT_POLICY\<close>, a spread or parsed JSON in a
  configuration). Such a lookup that finds no own entry goes on to \<^verbatim>\<open>Object.prototype\<close>:
  for the names below it finds an inherited member, a function (for \<^verbatim>\<open>__proto__\<close> the
  prototype object itself), which is not nullish, so the default 0 is not taken.
\<close>

definition objectPrototypeMembers :: "string list" where
  "objectPrototypeMembers =
     [''constructor'', ''hasOwnProperty'', ''isPrototypeOf'', ''propertyIsEnumerable'',
      ''toLocaleString'', ''toString'', ''valueOf'', ''__proto__'',
      ''__defineGetter__'', ''__defineSetter__'', ''__lookupGetter__'', ''__lookupSetter__'']"

text \<open>The value of the lookup: a number, or the inherited member of the given name.\<close>

datatype priority = Number int | Inherited string

definition priorityOf :: "conflict_policy \<Rightarrow> string \<Rightarrow> priority" where
  "priorityOf policy src =
     (case sourcePriority policy src of
        Some p \<Rightarrow> Number p
      | None \<Rightarrow> if src \<in> set objectPrototypeMembers then Inherited src else Number 0)"

text \<open>
  The operators of JavaScript on such values. \<^verbatim>\<open>x - y\<close> converts both sides to numbers,
  and an inherited member converts to NaN: \<open>None\<close>. \<^verbatim>\<open>x <= y\<close> and \<^verbatim>\<open>x < y\<close> first
  convert an object to a primitive, the string \<open>primitiveOf\<close> (the text of a native
  function starts with \<^verbatim>\<open>function\<close> and its name, and no name here is a prefix of
  another, so the name decides); two strings are compared by character code, a string
  against a number is converted to NaN and the test is false. \<^verbatim>\<open>x === y\<close> is equality of
  numbers, and identity of objects: the members are pairwise distinct objects, so it is
  the equality of \<open>priority\<close>.
\<close>

definition primitiveOf :: "string \<Rightarrow> string" where
  "primitiveOf member =
     (if member = ''__proto__'' then ''[object Object]''
      else ''function '' @ (if member = ''constructor'' then ''Object'' else member)
             @ ''() { [native code] }'')"

fun js_minus :: "priority \<Rightarrow> priority \<Rightarrow> int option" where
  "js_minus (Number x) (Number y) = Some (x - y)"
| "js_minus (Number x) (Inherited n) = None"
| "js_minus (Inherited m) y = None"

fun js_le :: "priority \<Rightarrow> priority \<Rightarrow> bool" where
  "js_le (Number x) (Number y) = (x \<le> y)"
| "js_le (Inherited m) (Inherited n) = (primitiveOf m \<le> primitiveOf n)"
| "js_le (Number x) (Inherited n) = False"
| "js_le (Inherited m) (Number y) = False"

fun js_lt :: "priority \<Rightarrow> priority \<Rightarrow> bool" where
  "js_lt (Number x) (Number y) = (x < y)"
| "js_lt (Inherited m) (Inherited n) = (primitiveOf m < primitiveOf n)"
| "js_lt (Number x) (Inherited n) = False"
| "js_lt (Inherited m) (Number y) = False"

definition resolvedTimestamp :: "int \<Rightarrow> candidate \<Rightarrow> int" where
  "resolvedTimestamp nowTs c = (case c_timestamp c of Some t \<Rightarrow> t | None \<Rightarrow> nowTs)"

text \<open>
  \<^verbatim>\<open>a.localeCompare(b)\<close> on field names: negative, zero or positive, by the collation
  of the host's default locale. A collation is given by its sort keys: strings of bytes
  such that two strings collate as their keys compare byte by byte. The key function
  \<open>collationKey\<close> of the host is an input of the model.
\<close>

definition localeCompare :: "(string \<Rightarrow> string) \<Rightarrow> string \<Rightarrow> string \<Rightarrow> int" where
  "localeCompare collationKey a b =
     (if collationKey a < collationKey b then - 1
      else if collationKey b < collationKey a then 1 else 0)"

text \<open>The comparator handed to \<^verbatim>\<open>sort\<close>: a number whose sign orders \<open>a\<close> and \<open>b\<close>, or
  NaN (\<open>None\<close>) when \<^verbatim>\<open>prioDiff\<close> is NaN, which \<^verbatim>\<open>prioDiff !== 0\<close> lets through.\<close>

definition compareCandidates ::
  "(string \<Rightarrow> string) \<Rightarrow> conflict_policy \<Rightarrow> int \<Rightarrow> candidate \<Rightarrow> candidate \<Rightarrow> real option" where
  "compareCandidates collationKey policy nowTs a b =
     (case js_minus (priorityOf policy (c_source b)) (priorityOf policy (c_source a)) of
        None \<Rightarrow> None
      | Some prioDiff \<Rightarrow>
          if prioDiff \<noteq> 0 then Some (real_of_int prioDiff)
          else
            let tsDiff = resolvedTimestamp nowTs b - resolvedTimestamp nowTs a in
            if tsDiff \<noteq> 0 then Some (real_of_int tsDiff)
            else
              let confDiff = c_confidence b - c_confidence a in
              if confDiff \<noteq> 0 then Some confDiff
              else Some (real_of_int (localeCompare collationKey (c_field a) (c_field b))))"

text \<open>\<^verbatim>\<open>Array.prototype.sort\<close> with a comparator is stable, and takes a comparator
  result of NaN for +0 (\<open>nan_as_zero\<close>): an element goes before the first element it does
  not compare greater than, and elements are inserted from the right, so equal elements
  keep their order. (Where the comparator is not a consistent order the language leaves
  the result to the implementation; for two elements it is this one.)\<close>

definition nan_as_zero :: "real option \<Rightarrow> real" where
  "nan_as_zero v = (case v of None \<Rightarrow> 0 | Some r \<Rightarrow> r)"

fun insort_cmp :: "('a \<Rightarrow> 'a \<Rightarrow> real option) \<Rightarrow> 'a \<Rightarrow> 'a list \<Rightarrow> 'a list" where
  "insort_cmp cmp x [] = [x]"
| "insort_cmp cmp x (y # ys) =
     (if nan_as_zero (cmp x y) \<le> 0 then x # y # ys else y # insort_cmp cmp x ys)"

definition array_sort :: "('a \<Rightarrow> 'a \<Rightarrow> real option) \<Rightarrow> 'a list \<Rightarrow> 'a list" where
  "array_sort cmp xs = foldr (insort_cmp cmp) xs []"

definition sortedCandidates ::
  "(string \<Rightarrow> string) \<Rightarrow> conflict_policy \<Rightarrow> int \<Rightarrow> candidate list \<Rightarrow> candidate list" where
  "sortedCandidates collationKey policy nowTs cs =
     array_sort (compareCandidates collationKey policy nowTs) cs"

text \<open>A rejection pushes one entry on \<^verbatim>\<open>rejected\<close> and one on \<^verbatim>\<open>history\<close>; the
  journal timestamp is \<open>ts\<close> (the clock, except for \<open>outside_recency\<close>).\<close>

definition reject :: "candidate \<Rightarrow> rejection_reason \<Rightarrow> int \<Rightarrow> merge_result \<Rightarrow> merge_result" where
  "reject c reason ts st =
     st\<lparr> rejected := rejected st @
            [\<lparr> r_field = c_field c, r_value = c_value c, r_reason = reason \<rparr>],
         history := history st @
            [\<lparr> h_field = c_field c, h_value = c_value c,
               h_previousValue = profile st (c_field c),
               h_source = c_source c, h_timestamp = ts,
               h_confidence = c_confidence c, h_inferred = c_inferred c,
               h_action = ActRejected, h_reason = Some reason \<rparr>] \<rparr>"

text \<open>The accepting tail of the loop body: truncate, write profile and provenance,
  record the field in \<^verbatim>\<open>updated\<close> and journal a \<^verbatim>\<open>set\<close> (or \<^verbatim>\<open>delete\<close> for null).\<close>

definition accept :: "conflict_policy \<Rightarrow> int \<Rightarrow> merge_result \<Rightarrow> candidate \<Rightarrow> merge_result" where
  "accept policy candidateTimestamp st c =
     (let field = c_field c;
          nextValue = truncateValue (c_value c) (maxFieldLength policy);
          previousValue = profile st field
      in st\<lparr> profile := (profile st)(field \<mapsto> nextValue),
             provenance := (provenance st)(field \<mapsto>
                \<lparr> p_value = nextValue, p_source = c_source c,
                   p_timestamp = candidateTimestamp,
                   p_confidence = c_confidence c, p_inferred = c_inferred c \<rparr>),
             updated := (updated st)(field \<mapsto> nextValue),
             history := history st @
                [\<lparr> h_field = field, h_value = nextValue, h_previousValue = previousValue,
                   h_source = c_source c, h_timestamp = candidateTimestamp,
                   h_confidence = c_confidence c, h_inferred = c_inferred c,
                   h_action = (if c_value c = JNull then ActDelete else ActSet),
                   h_reason = None \<rparr>] \<rparr>)"

text \<open>The body of the loop \<^verbatim>\<open>for (const candidate of sorted)\<close>, rule by rule in the
  order of the source. \<^verbatim>\<open>existingPriority\<close> is read only where \<^verbatim>\<open>existingProv\<close> is
  present, so its \<^verbatim>\<open>-Infinity\<close> default never decides a branch: each test on it is
  written under the presence of \<open>existingProv\<close>.\<close>

definition merge_step ::
  "conflict_policy \<Rightarrow> (string \<Rightarrow> bool) \<Rightarrow> bool \<Rightarrow> int \<Rightarrow> merge_result \<Rightarrow> candidate \<Rightarrow> merge_result" where
  "merge_step policy allowNull skipRecencyCheck nowTs st c =
     (let field = c_field c;
          candidatePriority = priorityOf policy (c_source c);
          existingProv = provenance st field;
          existingPriority = (\<lambda>ep. priorityOf policy (p_source ep))
      in
      if c_value c = JUndefined then reject c schema_invalid nowTs st
      else if c_confidence c < minConfidence policy then reject c low_confidence nowTs st
      else
        let candidateTimestamp = resolvedTimestamp nowTs c in
        if \<not> skipRecencyCheck \<and>
           (case existingProv of None \<Rightarrow> False
            | Some ep \<Rightarrow> js_le candidatePriority (existingPriority ep)
                \<and> candidateTimestamp \<le> p_timestamp ep
                \<and> p_timestamp ep - candidateTimestamp \<ge> int (recencyWindowMs policy))
        then reject c outside_recency candidateTimestamp st
        else if (case existingProv of None \<Rightarrow> False
                 | Some ep \<Rightarrow> candidatePriority = existingPriority ep
                     \<and> candidateTimestamp < p_timestamp ep)
        then reject c older_timestamp nowTs st
        else if (case existingProv of None \<Rightarrow> False
                 | Some ep \<Rightarrow> js_lt candidatePriority (existingPriority ep))
        then reject c lower_priority nowTs st
        else if c_value c = JNull \<and> \<not> allowNull field
        then reject c not_nullable nowTs st
        else accept policy candidateTimestamp st c)"

text \<open>\<^verbatim>\<open>mergeCandidates\<close>: copy profile and provenance, sample the clock once
  (\<open>nowTs\<close>, the value of \<^verbatim>\<open>now()\<close>), sort a copy of the batch (on a host that
  collates by \<open>collationKey\<close>) and run the loop.\<close>

definition mergeCandidates :: "(string \<Rightarrow> string) \<Rightarrow> int \<Rightarrow> merge_input \<Rightarrow> merge_result" where
  "mergeCandidates collationKey nowTs inp =
     foldl (merge_step (mi_policy inp) (mi_allowNull inp) (mi_skipRecencyCheck inp) nowTs)
       \<lparr> profile = mi_profile inp, provenance = mi_provenance inp,
          updated = Map.empty, rejected = [], history = [] \<rparr>
       (sortedCandidates collationKey (mi_policy inp) nowTs (mi_candidates inp))"

section \<open>factsheet.ts: the default policy\<close>

definition DEFAULT_POLICY :: conflict_policy where
  "DEFAULT_POLICY =
     \<lparr> sourcePriority = [''crm'' \<mapsto> 3, ''manual'' \<mapsto> 2, ''observe'' \<mapsto> 1, ''inferred'' \<mapsto> 0],
        minConfidence = 0.35,
        recencyWindowMs = 24 * 60 * 60 * 1000,
        maxFieldLength = 1024,
        extrasMaxKeys = 32,
        extrasPolicy = None \<rparr>"

section \<open>Example inputs\<close>

text \<open>
  A host collation on identifiers in the manner of the Unicode root collation: the
  underscore before the digits before the letters, and each letter next to its capital,
  so that \<open>age\<close> collates before \<open>Bio\<close> although \<open>B\<close> has the smaller character code.
  The key replaces each character by the one at the same place of a string in
  increasing character codes.
\<close>

definition ex_alphabet :: string where
  "ex_alphabet = ''_0123456789aAbBcCdDeEfFgGhHiIjJkKlLmMnNoOpPqQrRsStTuUvVwWxXyYzZ''"

definition ex_weights :: string where
  "ex_weights = ''!0123456789ABCDEFGHIJKLMNOPQRSTUVWXYZabcdefghijklmnopqrstuvwxyz''"

definition ex_collationKey :: "string \<Rightarrow> string" where
  "ex_collationKey s =
     map (\<lambda>c. case map_of (zip ex_alphabet ex_weights) c of Some w \<Rightarrow> w | None \<Rightarrow> CHR ''~'') s"





text \<open>A batch from several sources, one of them (\<open>webhook\<close>) not listed in the policy;
  \<open>Bio\<close> and \<open>age\<close> differ in the field name only.\<close>

definition ex_fact :: "string \<Rightarrow> string \<Rightarrow> int \<Rightarrow> real \<Rightarrow> candidate" where
  "ex_fact field src t conf =
     \<lparr> c_field = field, c_value = JStr src, c_confidence = conf, c_inferred = False,
        c_timestamp = Some t, c_source = src \<rparr>"

definition ex_mixed_batch :: "candidate list" where
  "ex_mixed_batch =
     [ex_fact ''role'' ''observe'' 10000 0.9,
      ex_fact ''role'' ''webhook'' 20000 1,
      ex_fact ''Bio'' ''manual'' 5000 0.8,
      ex_fact ''role'' ''crm'' 9000 0.5,
      ex_fact ''age'' ''manual'' 5000 0.8,
      ex_fact ''role'' ''crm'' 9000 0.7]"

definition ex_mixed_input :: merge_input where
  "ex_mixed_input =
     \<lparr> mi_profile = Map.empty,
        mi_provenance = Map.empty,
        mi_candidates = ex_mixed_batch,
        mi_policy = DEFAULT_POLICY,
        mi_allowNull = (\<lambda>_. False),
        mi_skipRecencyCheck = False \<rparr>"

text \<open>Two candidates for \<open>role\<close>: a guess from a source named \<open>constructor\<close>, which the
  policy does not list, and a newer, more confident value from \<open>crm\<close>.\<close>

definition ex_guess :: candidate where
  "ex_guess = \<lparr> c_field = ''role'', c_value = JStr ''guess'', c_confidence = 0.5,
                 c_inferred = False, c_timestamp = Some 1000, c_source = ''constructor'' \<rparr>"

definition ex_crm :: candidate where
  "ex_crm = \<lparr> c_field = ''role'', c_value = JStr ''cto'', c_confidence = 1,
               c_inferred = False, c_timestamp = Some 2000, c_source = ''crm'' \<rparr>"

definition ex_guess_input :: merge_input where
  "ex_guess_input =
     \<lparr> mi_profile = Map.empty,
        mi_provenance = Map.empty,
        mi_candidates = [ex_guess, ex_crm],
        mi_policy = DEFAULT_POLICY,
        mi_allowNull = (\<lambda>_. False),
        mi_skipRecencyCheck = False \<rparr>"

section \<open>The candidate ordering in the words of the specification\<close>

text \<open>
  The specification sorts the batch stably by (1) descending effective source priority
  (\<^verbatim>\<open>policy.source_priority[src] ?? 0\<close>: the listed priority, 0 for a source that is not
  listed), (2) descending timestamp (a missing timestamp is the clock at merge time),
  (3) descending confidence, (4) ascending field name. That is the library's stable
  \<open>sort_key\<close> on the tuple below, compared lexicographically; the three descending
  components are negated, and field names ascend in the host's collation.
\<close>

definition spec_priority :: "conflict_policy \<Rightarrow> string \<Rightarrow> int" where
  "spec_priority policy src = (case sourcePriority policy src of None \<Rightarrow> 0 | Some p \<Rightarrow> p)"

definition spec_timestamp :: "int \<Rightarrow> candidate \<Rightarrow> int" where
  "spec_timestamp nowTs c = (case c_timestamp c of None \<Rightarrow> nowTs | Some t \<Rightarrow> t)"

definition spec_sort_key ::
  "(string \<Rightarrow> string) \<Rightarrow> conflict_policy \<Rightarrow> int \<Rightarrow> candidate \<Rightarrow> int \<times> int \<times> real \<times> string" where
  "spec_sort_key collationKey policy nowTs c =
     (- spec_priority policy (c_source c), - spec_timestamp nowTs c, - c_confidence c,
      collationKey (c_field c))"

definition spec_order ::
  "(string \<Rightarrow> string) \<Rightarrow> conflict_policy \<Rightarrow> int \<Rightarrow> candidate list \<Rightarrow> candidate list" where
  "spec_order collationKey policy nowTs cs = sort_key (spec_sort_key collationKey policy nowTs) cs"

text \<open>How good a candidate is for its field: priority, then timestamp, then confidence.\<close>

definition spec_rank :: "conflict_policy \<Rightarrow> int \<Rightarrow> candidate \<Rightarrow> int \<times> int \<times> real" where
  "spec_rank policy nowTs c =
     (spec_priority policy (c_source c), spec_timestamp nowTs c, c_confidence c)"

text \<open>The sources of a batch whose priority lookup yields a number: those the policy
  lists, and those that are not the name of a member of \<^verbatim>\<open>Object.prototype\<close>.\<close>

definition numeric_source :: "conflict_policy \<Rightarrow> string \<Rightarrow> bool" where
  "numeric_source policy src =
     (sourcePriority policy src \<noteq> None \<or> src \<notin> set objectPrototypeMembers)"

definition numeric_sources :: "conflict_policy \<Rightarrow> candidate list \<Rightarrow> bool" where
  "numeric_sources policy cs = list_all (\<lambda>c. numeric_source policy (c_source c)) cs"

text \<open>What a journal entry records of the candidate it was written for.\<close>

definition journal_key :: "history_entry \<Rightarrow> string \<times> string \<times> real \<times> bool" where
  "journal_key h = (h_field h, h_source h, h_confidence h, h_inferred h)"

definition candidate_key :: "candidate \<Rightarrow> string \<times> string \<times> real \<times> bool" where
  "candidate_key c = (c_field c, c_source c, c_confidence c, c_inferred c)"

section \<open>Invariant (I4): bounded string fields\<close>

text \<open>No string-valued field of a profile is longer than \<open>m\<close>.\<close>

definition strings_bounded :: "nat \<Rightarrow> (string \<rightharpoonup> jvalue) \<Rightarrow> bool" where
  "strings_bounded m p = (\<forall>f v. p f = Some (JStr v) \<longrightarrow> length v \<le> m)"

text \<open>Every journal entry with action \<open>set\<close> and a string value holds at most \<open>m\<close>
  characters.\<close>

definition sets_bounded :: "nat \<Rightarrow> history_entry list \<Rightarrow> bool" where
  "sets_bounded m hs =
     (\<forall>h \<in> set hs. \<forall>v. h_action h = ActSet \<longrightarrow> h_value h = JStr v \<longrightarrow> length v \<le> m)"

definition step_inv :: "nat \<Rightarrow> merge_result \<Rightarrow> bool" where
  "step_inv m st = (sets_bounded m (history st) \<and> strings_bounded m (updated st))"

text \<open>The records the engine builds under one policy: the empty record, and the result
  of a merge (any batch, clock, nullability predicate and recency flag) into a record
  built before.\<close>

inductive merged_from_empty ::
  "conflict_policy \<Rightarrow> (string \<rightharpoonup> jvalue) \<Rightarrow> (string \<rightharpoonup> provenance) \<Rightarrow> bool"
  for policy :: conflict_policy where
  initial: "merged_from_empty policy Map.empty Map.empty"
| merge: "merged_from_empty policy prof prov \<Longrightarrow>
     r = mergeCandidates collationKey nowTs
           \<lparr> mi_profile = prof, mi_provenance = prov, mi_candidates = cs,
              mi_policy = policy, mi_allowNull = allowNull, mi_skipRecencyCheck = skip \<rparr> \<Longrightarrow>
     merged_from_empty policy (profile r) (provenance r)"

text \<open>A first write of an eleven-character role under a policy that allows five.\<close>

definition ex_long_input :: merge_input where
  "ex_long_input =
     \<lparr> mi_profile = Map.empty,
        mi_provenance = Map.empty,
        mi_candidates = [\<lparr> c_field = ''role'', c_value = JStr ''engineering'',
                           c_confidence = 1, c_inferred = False, c_timestamp = None,
                           c_source = ''manual'' \<rparr>],
        mi_policy = DEFAULT_POLICY\<lparr> maxFieldLength := 5 \<rparr>,
        mi_allowNull = (\<lambda>_. False),
        mi_skipRecencyCheck = True \<rparr>"

section \<open>errors.ts\<close>

text \<open>The error classes the orchestrator and the in-memory adapter can raise (messages
  left out). \<open>ConcurrencyError\<close> carries \<^verbatim>\<open>currentEtag\<close>, \<open>PersistenceError\<close> the
  attempt count and the cause; \<open>ExtractorFailure\<close> stands for whatever the extractor
  collaborator throws.\<close>

datatype error =
    ConcurrencyError "string option"
  | SchemaNotRegisteredError
  | ExtractorNotConfiguredError
  | PersistenceError nat "error option"
  | ExtractorFailure

fun is_ConcurrencyError :: "error \<Rightarrow> bool" where
  "is_ConcurrencyError (ConcurrencyError _) = True"
| "is_ConcurrencyError _ = False"

section \<open>adapters/memory.ts: the in-memory adapter\<close>

text \<open>storage/types.ts: \<^verbatim>\<open>StorageRecord\<close>, and \<^verbatim>\<open>MemoryEntry\<close> which extends it
  with the journal.\<close>

record storage_record =
  sr_profile :: "string \<rightharpoonup> jvalue"
  sr_provenance :: "string \<rightharpoonup> provenance"
  sr_etag :: string

record memory_entry = storage_record +
  e_history :: "history_entry list"

record storage_set_options =
  o_etag :: "string option"
  o_force :: "bool option"

record memory_adapter =
  store :: "string \<rightharpoonup> memory_entry"
  maxHistory :: "nat option"

text \<open>JavaScript truthiness of an optional string and of an optional count.\<close>

definition truthy_string :: "string option \<Rightarrow> bool" where
  "truthy_string s = (case s of None \<Rightarrow> False | Some t \<Rightarrow> t \<noteq> [])"

definition truthy_count :: "nat option \<Rightarrow> bool" where
  "truthy_count n = (case n of None \<Rightarrow> False | Some k \<Rightarrow> k \<noteq> 0)"

text \<open>\<^verbatim>\<open>String(Number(etag) + 1)\<close>. \<open>Number_of\<close> reads a string of decimal digits (the
  empty string is 0); every etag the adapter writes is such a string. Any other string
  is modelled as NaN, whose successor prints as \<^verbatim>\<open>NaN\<close>.\<close>

definition digit_of :: "char \<Rightarrow> nat option" where
  "digit_of c = (if CHR ''0'' \<le> c \<and> c \<le> CHR ''9''
                 then Some (of_char c - of_char CHR ''0'') else None)"

fun Number_of :: "nat \<Rightarrow> string \<Rightarrow> nat option" where
  "Number_of acc [] = Some acc"
| "Number_of acc (c # cs) =
     (case digit_of c of None \<Rightarrow> None | Some d \<Rightarrow> Number_of (10 * acc + d) cs)"

fun String_of :: "nat \<Rightarrow> string" where
  "String_of n =
     (if n < 10 then [''0123456789'' ! n]
      else String_of (n div 10) @ [''0123456789'' ! (n mod 10)])"

declare String_of.simps [simp del]

definition next_etag :: "string \<Rightarrow> string" where
  "next_etag etag = (case Number_of 0 etag of None \<Rightarrow> ''NaN'' | Some n \<Rightarrow> String_of (n + 1))"

definition MemoryAdapter_get :: "memory_adapter \<Rightarrow> string \<Rightarrow> storage_record option" where
  "MemoryAdapter_get a userId =
     (case store a userId of
        None \<Rightarrow> None
      | Some record \<Rightarrow>
          Some \<lparr> sr_profile = sr_profile record, sr_provenance = sr_provenance record,
                 sr_etag = sr_etag record \<rparr>)"

text \<open>\<^verbatim>\<open>set\<close>: the etag is compared only when an etag option is given (and truthy), a
  record exists, and \<^verbatim>\<open>force\<close> is not set. The result is the new etag and the adapter
  after the write; a raised \<open>ConcurrencyError\<close> leaves the adapter as it was.\<close>

definition MemoryAdapter_set ::
  "memory_adapter \<Rightarrow> string \<Rightarrow> (string \<rightharpoonup> jvalue) \<Rightarrow> (string \<rightharpoonup> provenance)
   \<Rightarrow> storage_set_options option \<Rightarrow> history_entry list option
   \<Rightarrow> error + (string \<times> memory_adapter)" where
  "MemoryAdapter_set a userId prof prov options historyEntries =
     (let existing = store a userId;
          optEtag = (case options of None \<Rightarrow> None | Some opts \<Rightarrow> o_etag opts);
          force = (case options of None \<Rightarrow> False
                   | Some opts \<Rightarrow> (case o_force opts of None \<Rightarrow> False | Some b \<Rightarrow> b))
      in
      if truthy_string optEtag
         \<and> (case existing of None \<Rightarrow> False | Some ex \<Rightarrow> Some (sr_etag ex) \<noteq> optEtag)
         \<and> \<not> force
      then Inl (ConcurrencyError (map_option sr_etag existing))
      else
        let nextEtag = (case existing of Some ex \<Rightarrow> next_etag (sr_etag ex) | None \<Rightarrow> ''1'');
            hist0 = (case existing of Some ex \<Rightarrow> e_history ex | None \<Rightarrow> []);
            hist = (case historyEntries of
                      None \<Rightarrow> hist0
                    | Some entries \<Rightarrow>
                        (let pushed = hist0 @ entries in
                         if truthy_count (maxHistory a) \<and> length pushed > the (maxHistory a)
                         then drop (length pushed - the (maxHistory a)) pushed
                         else pushed))
        in Inr (nextEtag,
                a\<lparr> store := (store a)(userId \<mapsto>
                     \<lparr> sr_profile = prof, sr_provenance = prov, sr_etag = nextEtag,
                        e_history = hist \<rparr>) \<rparr>))"

definition empty_adapter :: "nat option \<Rightarrow> memory_adapter" where
  "empty_adapter mh = \<lparr> store = Map.empty, maxHistory = mh \<rparr>"

section \<open>factsheet.ts: the extras sanitizer\<close>

text \<open>The default key pattern \<^verbatim>\<open>/^[a-zA-Z0-9_]+(\.[a-zA-Z0-9_]+)*$/\<close>: one or more
  non-empty runs of word characters, separated by single dots.\<close>

definition isWordChar :: "char \<Rightarrow> bool" where
  "isWordChar c =
     (c \<in> set ''abcdefghijklmnopqrstuvwxyzABCDEFGHIJKLMNOPQRSTUVWXYZ0123456789_'')"

fun splitDots :: "string \<Rightarrow> string list" where
  "splitDots [] = [[]]"
| "splitDots (c # cs) =
     (if c = CHR ''.'' then [] # splitDots cs
      else (case splitDots cs of [] \<Rightarrow> [[c]] | seg # segs \<Rightarrow> (c # seg) # segs))"

definition defaultKeyPattern :: "string \<Rightarrow> bool" where
  "defaultKeyPattern key =
     list_all (\<lambda>seg. seg \<noteq> [] \<and> list_all isWordChar seg) (splitDots key)"

text \<open>The constants \<^verbatim>\<open>sanitizeExtrasValue\<close> computes from the policy before it
  defines the inner \<^verbatim>\<open>sanitizeValue\<close>.\<close>

record sanitize_params =
  sp_keyRegex :: "string \<Rightarrow> bool"
  sp_maxKeyLength :: nat
  sp_maxStringLength :: nat
  sp_allowArrays :: bool
  sp_allowNestedObjects :: bool
  sp_maxNestingDepth :: nat
  sp_maxArrayLength :: nat

definition sanitize_params_of :: "conflict_policy \<Rightarrow> sanitize_params" where
  "sanitize_params_of policy =
     (let ep = extrasPolicy policy;
          opt = (\<lambda>sel dflt. case ep of None \<Rightarrow> dflt
                            | Some e \<Rightarrow> (case sel e of None \<Rightarrow> dflt | Some x \<Rightarrow> x))
      in \<lparr> sp_keyRegex = (case ep of None \<Rightarrow> defaultKeyPattern
                           | Some e \<Rightarrow> (case keyPattern e of None \<Rightarrow> defaultKeyPattern
                                        | Some r \<Rightarrow> r)),
            sp_maxKeyLength = opt maxKeyLength 64,
            sp_maxStringLength = min (opt maxStringLength 512) (maxFieldLength policy),
            sp_allowArrays = (case ep of None \<Rightarrow> False
                              | Some e \<Rightarrow> (case allowArrays e of None \<Rightarrow> False | Some b \<Rightarrow> b)),
            sp_allowNestedObjects = (case ep of None \<Rightarrow> False
                              | Some e \<Rightarrow> (case allowNestedObjects e of None \<Rightarrow> False
                                           | Some b \<Rightarrow> b)),
            sp_maxNestingDepth = opt maxNestingDepth 2,
            sp_maxArrayLength = opt maxArrayLength 32 \<rparr>)"

text \<open>\<^verbatim>\<open>sanitizeValue(raw, depth)\<close> with its two loops: over the items of an array
  (\<open>sanitizeItems\<close>) and over the entries of a nested object (\<open>sanitizeNested\<close>, with
  the object built so far). \<open>JUndefined\<close> is the source's \<^verbatim>\<open>undefined\<close>: dropped.\<close>

function sanitizeValue :: "sanitize_params \<Rightarrow> jvalue \<Rightarrow> nat \<Rightarrow> jvalue"
  and sanitizeItems :: "sanitize_params \<Rightarrow> jvalue list \<Rightarrow> nat \<Rightarrow> jvalue list"
  and sanitizeNested ::
    "sanitize_params \<Rightarrow> (string \<times> jvalue) list \<Rightarrow> nat \<Rightarrow> (string \<times> jvalue) list
     \<Rightarrow> (string \<times> jvalue) list"
where
  "sanitizeValue sp JNull depth = JNull"
| "sanitizeValue sp (JStr s) depth =
     JStr (if length s > sp_maxStringLength sp then take (sp_maxStringLength sp) s else s)"
| "sanitizeValue sp (JNum r) depth = JNum r"
| "sanitizeValue sp JNonFinite depth = JUndefined"
| "sanitizeValue sp (JBool b) depth = JBool b"
| "sanitizeValue sp (JArr raw) depth =
     (if \<not> sp_allowArrays sp then JUndefined
      else let sanitizedArray = sanitizeItems sp (take (sp_maxArrayLength sp) raw) depth
           in if length sanitizedArray > 0 then JArr sanitizedArray else JUndefined)"
| "sanitizeValue sp (JObj nested) depth =
     (if \<not> sp_allowNestedObjects sp then JUndefined
      else if depth \<ge> sp_maxNestingDepth sp then JUndefined
      else let sanitizedNested = sanitizeNested sp nested (depth + 1) []
           in if length sanitizedNested > 0 then JObj sanitizedNested else JUndefined)"
| "sanitizeValue sp JUndefined depth = JUndefined"
| "sanitizeItems sp [] depth = []"
| "sanitizeItems sp (item # rest) depth =
     (let sanitized = sanitizeValue sp item depth
      in if sanitized \<noteq> JUndefined then sanitized # sanitizeItems sp rest depth
         else sanitizeItems sp rest depth)"
| "sanitizeNested sp [] depth acc = acc"
| "sanitizeNested sp ((nestedKey, nestedValue) # rest) depth acc =
     (if length nestedKey > sp_maxKeyLength sp then sanitizeNested sp rest depth acc
      else if \<not> sp_keyRegex sp nestedKey then sanitizeNested sp rest depth acc
      else let sanitized = sanitizeValue sp nestedValue depth
           in if sanitized \<noteq> JUndefined
              then sanitizeNested sp rest depth (AList.update nestedKey sanitized acc)
              else sanitizeNested sp rest depth acc)"
  by pat_completeness auto

termination
  apply (relation "measure (\<lambda>x. case x of
       Inl (sp, v, d) \<Rightarrow> 2 * size v
     | Inr (Inl (sp, vs, d)) \<Rightarrow> 2 * size_list size vs + 1
     | Inr (Inr (sp, kvs, d, acc)) \<Rightarrow> 2 * size_list (size_prod (\<lambda>_. 0) size) kvs + 1)")
        apply simp_all
  subgoal for sp raw
    using size_list_append [of size "take (sp_maxArrayLength sp) raw"
                                   "drop (sp_maxArrayLength sp) raw"]
    by simp
  done

text \<open>The top-level loop of \<^verbatim>\<open>sanitizeExtrasValue\<close>: it stops (\<^verbatim>\<open>break\<close>) once
  \<open>keyLimit\<close> keys have survived.\<close>

fun sanitizeEntries ::
  "sanitize_params \<Rightarrow> nat \<Rightarrow> (string \<times> jvalue) list \<Rightarrow> (string \<times> jvalue) list
   \<Rightarrow> (string \<times> jvalue) list" where
  "sanitizeEntries sp keyLimit [] sanitized = sanitized"
| "sanitizeEntries sp keyLimit ((key, raw) # rest) sanitized =
     (if length sanitized \<ge> keyLimit then sanitized
      else if length key > sp_maxKeyLength sp then sanitizeEntries sp keyLimit rest sanitized
      else if \<not> sp_keyRegex sp key then sanitizeEntries sp keyLimit rest sanitized
      else let sanitizedValue = sanitizeValue sp raw 0
           in if sanitizedValue \<noteq> JUndefined
              then sanitizeEntries sp keyLimit rest (AList.update key sanitizedValue sanitized)
              else sanitizeEntries sp keyLimit rest sanitized)"

text \<open>\<^verbatim>\<open>sanitizeExtrasValue\<close>: null stays null; anything that is not a plain object is
  \<^verbatim>\<open>undefined\<close>; an object is sanitized entry by entry and is \<^verbatim>\<open>undefined\<close> when no key
  survives.\<close>

definition sanitizeExtrasValue :: "jvalue \<Rightarrow> conflict_policy \<Rightarrow> jvalue" where
  "sanitizeExtrasValue v policy =
     (case v of
        JNull \<Rightarrow> JNull
      | JObj entries \<Rightarrow>
          (let sanitized = sanitizeEntries (sanitize_params_of policy) (extrasMaxKeys policy)
                             entries []
           in if length sanitized = 0 then JUndefined else JObj sanitized)
      | _ \<Rightarrow> JUndefined)"

section \<open>factsheet.ts: the orchestrator\<close>

text \<open>The schema is a Zod object in the source, an external library. Of each declared
  field the model keeps what the orchestrator asks of it: \<open>fs_parse\<close> is
  \<^verbatim>\<open>normalizeEnumValue\<close> followed by \<^verbatim>\<open>safeParse\<close> (\<open>Some\<close> of the parsed data on
  success), \<open>fs_nullable\<close> is \<^verbatim>\<open>allowsNull\<close> of the field's type.\<close>

record field_schema =
  fs_parse :: "jvalue \<Rightarrow> jvalue option"
  fs_nullable :: bool

type_synonym shape = "string \<rightharpoonup> field_schema"

record fact_sheet_config =
  cfg_schema :: "shape option"
  cfg_policy :: conflict_policy
  cfg_extractor :: bool

text \<open>\<^verbatim>\<open>PatchResult\<close> and \<^verbatim>\<open>ObserveResult\<close> as one structural type: a patch result has
  none of the optional properties.\<close>

record call_result =
  res_profile :: "string \<rightharpoonup> jvalue"
  res_updated :: "string \<rightharpoonup> jvalue"
  res_rejected :: "rejected_field list"
  res_extracted :: "(string \<rightharpoonup> jvalue) option"
  res_rawResponse :: "jvalue option"
  res_latencyMs :: "int option"
  res_queued :: "bool option"
  res_requestId :: "string option"

record cache_entry =
  ce_value :: call_result
  ce_expiresAt :: int

text \<open>The mutable state of a \<^verbatim>\<open>FactSheet\<close>: its storage adapter and its idempotency
  cache, a \<^verbatim>\<open>Map\<close> in insertion order. Event emission and logging change no state
  and are left out.\<close>

record fact_sheet =
  storage :: memory_adapter
  idempotencyCache :: "(string \<times> cache_entry) list"

text \<open>What a call meets on its way: the collation of the host it runs on, the clock
  readings (\<^verbatim>\<open>Date.now()\<close> at the cache lookup, \<^verbatim>\<open>now()\<close> in the merge of attempt \<open>k\<close>,
  \<^verbatim>\<open>Date.now()\<close> at the cache write), and what other tasks do to the store while the
  call is suspended at an \<^verbatim>\<open>await\<close>: between the read and the write of attempt \<open>k\<close>,
  and between a failed write and the re-read.\<close>

record schedule =
  hostCollation :: "string \<Rightarrow> string"
  lookupNow :: int
  mergeNow :: "nat \<Rightarrow> int"
  cacheNow :: int
  beforePersist :: "nat \<Rightarrow> memory_adapter \<Rightarrow> memory_adapter"
  beforeReread :: "memory_adapter \<Rightarrow> memory_adapter"

text \<open>No other task touches the store during the call.\<close>

definition quiet_schedule :: "(string \<Rightarrow> string) \<Rightarrow> int \<Rightarrow> int \<Rightarrow> int \<Rightarrow> schedule" where
  "quiet_schedule collationKey t_lookup t_merge t_cache =
     \<lparr> hostCollation = collationKey, lookupNow = t_lookup, mergeNow = (\<lambda>_. t_merge), cacheNow = t_cache,
        beforePersist = (\<lambda>_ a. a), beforeReread = (\<lambda>a. a) \<rparr>"

definition allowsNull :: "shape \<Rightarrow> string \<Rightarrow> bool" where
  "allowsNull shp field =
     (case shp field of None \<Rightarrow> False | Some fieldSchema \<Rightarrow> fs_nullable fieldSchema)"

definition defaultRecord :: storage_record where
  "defaultRecord = \<lparr> sr_profile = Map.empty, sr_provenance = Map.empty, sr_etag = ''0'' \<rparr>"

definition persist ::
  "memory_adapter \<Rightarrow> string \<Rightarrow> (string \<rightharpoonup> jvalue) \<Rightarrow> (string \<rightharpoonup> provenance)
   \<Rightarrow> history_entry list \<Rightarrow> storage_record \<Rightarrow> error + (string \<times> memory_adapter)" where
  "persist a userId prof prov hist existing =
     MemoryAdapter_set a userId prof prov
       (Some \<lparr> o_etag = Some (sr_etag existing), o_force = None \<rparr>) (Some hist)"

definition read_or_default :: "memory_adapter \<Rightarrow> string \<Rightarrow> storage_record" where
  "read_or_default a userId =
     (case MemoryAdapter_get a userId of Some r \<Rightarrow> r | None \<Rightarrow> defaultRecord)"

text \<open>The loop \<^verbatim>\<open>while (attempts < 2)\<close> of \<^verbatim>\<open>mergeAndPersistWithRetry\<close>, with the
  statement after it. The result is what the call returns or throws, and the store it
  leaves.\<close>

function retry_loop ::
  "conflict_policy \<Rightarrow> shape \<Rightarrow> schedule \<Rightarrow> string \<Rightarrow> candidate list \<Rightarrow> bool
   \<Rightarrow> nat \<Rightarrow> storage_record \<Rightarrow> error option \<Rightarrow> memory_adapter
   \<Rightarrow> (error + merge_result) \<times> memory_adapter" where
  "retry_loop policy shp sched userId candidates skipRecencyCheck attempts existing lastError a =
     (if attempts < 2 then
        let merged = mergeCandidates (hostCollation sched) (mergeNow sched attempts)
                       \<lparr> mi_profile = sr_profile existing,
                          mi_provenance = sr_provenance existing,
                          mi_candidates = candidates,
                          mi_policy = policy,
                          mi_allowNull = allowsNull shp,
                          mi_skipRecencyCheck = skipRecencyCheck \<rparr>;
            a1 = beforePersist sched attempts a
        in case persist a1 userId (profile merged) (provenance merged) (history merged) existing of
             Inr (etag, a2) \<Rightarrow> (Inr merged, a2)
           | Inl err \<Rightarrow>
               if is_ConcurrencyError err \<and> attempts = 0 then
                 let a3 = beforeReread sched a1
                 in retry_loop policy shp sched userId candidates skipRecencyCheck
                      (attempts + 1) (read_or_default a3 userId) (Some err) a3
               else (Inl err, a1)
      else (Inl (PersistenceError attempts lastError), a))"
  by pat_completeness auto

termination
  by (relation "measure (\<lambda>(policy, shp, sched, userId, candidates, skipRecencyCheck,
                            attempts, existing, lastError, a). 2 - attempts)") auto

declare retry_loop.simps [simp del]

definition mergeAndPersistWithRetry ::
  "conflict_policy \<Rightarrow> shape \<Rightarrow> schedule \<Rightarrow> memory_adapter \<Rightarrow> string \<Rightarrow> candidate list
   \<Rightarrow> bool \<Rightarrow> (error + merge_result) \<times> memory_adapter" where
  "mergeAndPersistWithRetry policy shp sched a userId candidates skipRecencyCheck =
     retry_loop policy shp sched userId candidates skipRecencyCheck
       0 (read_or_default a userId) None a"

subsection \<open>The idempotency cache\<close>

definition IDEMPOTENCY_CACHE_LIMIT :: nat where
  "IDEMPOTENCY_CACHE_LIMIT = 1000"

definition IDEMPOTENCY_TTL_MS :: int where
  "IDEMPOTENCY_TTL_MS = 5 * 60 * 1000"

definition makeIdempotencyKey :: "string \<Rightarrow> string \<Rightarrow> string \<Rightarrow> string" where
  "makeIdempotencyKey kind userId key = kind @ '':'' @ userId @ '':'' @ key"

text \<open>The key under which a call is cached: none when the request carries no
  idempotency key, or an empty one (the source tests the key for truthiness).\<close>

definition idKey_of :: "string \<Rightarrow> string \<Rightarrow> string option \<Rightarrow> string option" where
  "idKey_of kind userId key =
     (case key of
        None \<Rightarrow> None
      | Some k \<Rightarrow> if k \<noteq> [] then Some (makeIdempotencyKey kind userId k) else None)"

definition getIdempotencyCache ::
  "(string \<times> cache_entry) list \<Rightarrow> string \<Rightarrow> int
   \<Rightarrow> call_result option \<times> (string \<times> cache_entry) list" where
  "getIdempotencyCache cache key now =
     (case map_of cache key of
        None \<Rightarrow> (None, cache)
      | Some entry \<Rightarrow>
          if now > ce_expiresAt entry then (None, AList.delete key cache)
          else (Some (ce_value entry), cache))"

definition setIdempotencyCache ::
  "(string \<times> cache_entry) list \<Rightarrow> string \<Rightarrow> call_result \<Rightarrow> int
   \<Rightarrow> (string \<times> cache_entry) list" where
  "setIdempotencyCache cache key v now =
     (let pruned = filter (\<lambda>(k, entry). \<not> now > ce_expiresAt entry) cache;
          evicted = (if length pruned \<ge> IDEMPOTENCY_CACHE_LIMIT
                     then (case pruned of
                             [] \<Rightarrow> pruned
                           | (firstKey, _) # _ \<Rightarrow>
                               if firstKey \<noteq> [] then AList.delete firstKey pruned else pruned)
                     else pruned)
      in AList.update key \<lparr> ce_value = v, ce_expiresAt = now + IDEMPOTENCY_TTL_MS \<rparr> evicted)"

text \<open>The lookup at the head of \<^verbatim>\<open>observe\<close> and \<^verbatim>\<open>patch\<close>.\<close>

definition lookup_cached ::
  "fact_sheet \<Rightarrow> string option \<Rightarrow> int \<Rightarrow> call_result option \<times> fact_sheet" where
  "lookup_cached fs idKey now =
     (case idKey of
        None \<Rightarrow> (None, fs)
      | Some k \<Rightarrow>
          (let (cached, cache') = getIdempotencyCache (idempotencyCache fs) k now
           in (cached, fs\<lparr> idempotencyCache := cache' \<rparr>)))"

definition store_cached :: "fact_sheet \<Rightarrow> string option \<Rightarrow> call_result \<Rightarrow> int \<Rightarrow> fact_sheet" where
  "store_cached fs idKey v now =
     (case idKey of
        None \<Rightarrow> fs
      | Some k \<Rightarrow> fs\<lparr> idempotencyCache := setIdempotencyCache (idempotencyCache fs) k v now \<rparr>)"

subsection \<open>patch\<close>

record patch_request =
  pr_userId :: string
  pr_facts :: "(string \<times> jvalue) list option"
  pr_source :: "string option"
  pr_confidence :: "real option"
  pr_idempotencyKey :: "string option"

text \<open>The body of the loop \<^verbatim>\<open>for (const field of fields)\<close> of \<^verbatim>\<open>patch\<close>, on the pair
  of the lists \<^verbatim>\<open>rejected\<close> and \<^verbatim>\<open>accepted\<close>.\<close>

definition patch_field ::
  "shape \<Rightarrow> conflict_policy \<Rightarrow> patch_request \<Rightarrow> rejected_field list \<times> candidate list
   \<Rightarrow> string \<Rightarrow> rejected_field list \<times> candidate list" where
  "patch_field shp policy request acc field =
     (let (rej, accepted) = acc;
          facts = (case pr_facts request of None \<Rightarrow> [] | Some f \<Rightarrow> f);
          v = (case map_of facts field of None \<Rightarrow> JUndefined | Some x \<Rightarrow> x)
      in case shp field of
           None \<Rightarrow> (rej @ [\<lparr> r_field = field, r_value = v, r_reason = unknown_field \<rparr>], accepted)
         | Some fieldSchema \<Rightarrow>
             (let sanitizedValue =
                    (if field = ''extras'' then sanitizeExtrasValue v policy else v)
              in if field = ''extras'' \<and> sanitizedValue = JUndefined
                 then (rej @ [\<lparr> r_field = field, r_value = v, r_reason = extras_invalid \<rparr>],
                       accepted)
                 else (case fs_parse fieldSchema sanitizedValue of
                         None \<Rightarrow>
                           (rej @ [\<lparr> r_field = field, r_value = v, r_reason = schema_invalid \<rparr>],
                            accepted)
                       | Some parsed \<Rightarrow>
                           (rej,
                            accepted @
                              [\<lparr> c_field = field, c_value = parsed,
                                 c_confidence = (case pr_confidence request of
                                                   None \<Rightarrow> 1 | Some x \<Rightarrow> x),
                                 c_inferred = False, c_timestamp = None,
                                 c_source = (case pr_source request of
                                               None \<Rightarrow> ''manual'' | Some s \<Rightarrow> s) \<rparr>]))))"

definition patch_candidates ::
  "shape \<Rightarrow> conflict_policy \<Rightarrow> patch_request \<Rightarrow> rejected_field list \<times> candidate list" where
  "patch_candidates shp policy request =
     foldl (patch_field shp policy request) ([], [])
       (map fst (case pr_facts request of None \<Rightarrow> [] | Some f \<Rightarrow> f))"

definition patch ::
  "fact_sheet_config \<Rightarrow> schedule \<Rightarrow> fact_sheet \<Rightarrow> patch_request
   \<Rightarrow> (error + call_result) \<times> fact_sheet" where
  "patch cfg sched fs request =
     (case cfg_schema cfg of
        None \<Rightarrow> (Inl SchemaNotRegisteredError, fs)
      | Some shp \<Rightarrow>
          (let idKey = idKey_of ''patch'' (pr_userId request) (pr_idempotencyKey request);
               (cached, fs1) = lookup_cached fs idKey (lookupNow sched)
           in case cached of
                Some r \<Rightarrow> (Inr r, fs1)
              | None \<Rightarrow>
                  (let (rej, accepted) = patch_candidates shp (cfg_policy cfg) request;
                       (outcome, a') = mergeAndPersistWithRetry (cfg_policy cfg) shp sched
                                         (storage fs1) (pr_userId request) accepted True;
                       fs2 = fs1\<lparr> storage := a' \<rparr>
                   in case outcome of
                        Inl err \<Rightarrow> (Inl err, fs2)
                      | Inr merged \<Rightarrow>
                          (let result = \<lparr> res_profile = profile merged,
                                           res_updated = updated merged,
                                           res_rejected = rej @ rejected merged,
                                           res_extracted = None, res_rawResponse = None,
                                           res_latencyMs = None, res_queued = None,
                                           res_requestId = None \<rparr>
                           in (Inr result, store_cached fs2 idKey result (cacheNow sched))))))"

subsection \<open>observe\<close>

text \<open>A candidate as the extractor hands it over: confidence, source and timestamp may
  be missing.\<close>

record raw_candidate =
  x_field :: string
  x_value :: jvalue
  x_confidence :: "real option"
  x_inferred :: bool
  x_timestamp :: "int option"
  x_source :: "string option"

record extractor_result =
  er_candidates :: "raw_candidate list"
  er_rawResponse :: "jvalue option"
  er_latencyMs :: "int option"

text \<open>The request, without the texts and \<^verbatim>\<open>extractFrom\<close>, which only the extractor
  reads: the extractor's answer is an input of the model.\<close>

record observe_request =
  or_userId :: string
  or_source :: "string option"
  or_confidence :: "real option"
  or_idempotencyKey :: "string option"
  or_async :: bool

text \<open>The body of the loop of \<^verbatim>\<open>validateCandidates\<close>, on \<^verbatim>\<open>accepted\<close>, \<^verbatim>\<open>rejected\<close> and
  \<^verbatim>\<open>extracted\<close>.\<close>

definition validate_candidate ::
  "shape \<Rightarrow> conflict_policy \<Rightarrow> observe_request
   \<Rightarrow> candidate list \<times> rejected_field list \<times> (string \<rightharpoonup> jvalue) \<Rightarrow> raw_candidate
   \<Rightarrow> candidate list \<times> rejected_field list \<times> (string \<rightharpoonup> jvalue)" where
  "validate_candidate shp policy request acc cand =
     (let (accepted, rej, extracted) = acc;
          field = x_field cand
      in case shp field of
           None \<Rightarrow>
             (accepted,
              rej @ [\<lparr> r_field = field, r_value = x_value cand, r_reason = unknown_field \<rparr>],
              extracted)
         | Some fieldSchema \<Rightarrow>
             (let sanitizedValue =
                    (if field = ''extras'' then sanitizeExtrasValue (x_value cand) policy
                     else x_value cand)
              in if field = ''extras'' \<and> sanitizedValue = JUndefined
                 then (accepted,
                       rej @ [\<lparr> r_field = field, r_value = x_value cand,
                                 r_reason = extras_invalid \<rparr>],
                       extracted)
                 else (case fs_parse fieldSchema sanitizedValue of
                         None \<Rightarrow>
                           (accepted,
                            rej @ [\<lparr> r_field = field, r_value = x_value cand,
                                      r_reason = schema_invalid \<rparr>],
                            extracted)
                       | Some parsed \<Rightarrow>
                           (accepted @
                              [\<lparr> c_field = field, c_value = parsed,
                                 c_confidence =
                                   (case x_confidence cand of
                                      Some x \<Rightarrow> x
                                    | None \<Rightarrow> (case or_confidence request of
                                                 Some y \<Rightarrow> y | None \<Rightarrow> 0.8)),
                                 c_inferred = x_inferred cand,
                                 c_timestamp = x_timestamp cand,
                                 c_source =
                                   (case x_source cand of
                                      Some s \<Rightarrow> s
                                    | None \<Rightarrow>
                                        if x_inferred cand then ''inferred''
                                        else (case or_source request of
                                                Some s \<Rightarrow> s | None \<Rightarrow> ''observe'')) \<rparr>],
                            rej,
                            extracted(field \<mapsto> sanitizedValue)))))"

definition validateCandidates ::
  "shape \<Rightarrow> conflict_policy \<Rightarrow> raw_candidate list \<Rightarrow> observe_request
   \<Rightarrow> candidate list \<times> rejected_field list \<times> (string \<rightharpoonup> jvalue)" where
  "validateCandidates shp policy candidates request =
     foldl (validate_candidate shp policy request) ([], [], Map.empty) candidates"

definition processObserve ::
  "fact_sheet_config \<Rightarrow> shape \<Rightarrow> schedule \<Rightarrow> fact_sheet \<Rightarrow> observe_request
   \<Rightarrow> string option \<Rightarrow> string \<Rightarrow> error + extractor_result
   \<Rightarrow> (error + call_result) \<times> fact_sheet" where
  "processObserve cfg shp sched fs request idKey requestId extraction =
     (case extraction of
        Inl err \<Rightarrow> (Inl err, fs)
      | Inr ex \<Rightarrow>
          (let (accepted, rej, extracted) =
                 validateCandidates shp (cfg_policy cfg) (er_candidates ex) request;
               (outcome, a') = mergeAndPersistWithRetry (cfg_policy cfg) shp sched
                                 (storage fs) (or_userId request) accepted False;
               fs2 = fs\<lparr> storage := a' \<rparr>
           in case outcome of
                Inl err \<Rightarrow> (Inl err, fs2)
              | Inr merged \<Rightarrow>
                  (let result = \<lparr> res_profile = profile merged,
                                   res_updated = updated merged,
                                   res_rejected = rej @ rejected merged,
                                   res_extracted = Some extracted,
                                   res_rawResponse = er_rawResponse ex,
                                   res_latencyMs = er_latencyMs ex,
                                   res_queued = None,
                                   res_requestId = Some requestId \<rparr>
                   in (Inr result, store_cached fs2 idKey result (cacheNow sched)))))"

text \<open>\<^verbatim>\<open>observe\<close>. \<open>requestId\<close> is the identifier \<^verbatim>\<open>makeRequestId\<close> draws. In async mode
  the call answers with the snapshot read before the background task starts; the
  background task is run to its end here, and its failure is only logged.\<close>

definition observe ::
  "fact_sheet_config \<Rightarrow> schedule \<Rightarrow> fact_sheet \<Rightarrow> observe_request \<Rightarrow> string
   \<Rightarrow> error + extractor_result \<Rightarrow> (error + call_result) \<times> fact_sheet" where
  "observe cfg sched fs request requestId extraction =
     (case cfg_schema cfg of
        None \<Rightarrow> (Inl SchemaNotRegisteredError, fs)
      | Some shp \<Rightarrow>
          if \<not> cfg_extractor cfg then (Inl ExtractorNotConfiguredError, fs)
          else
            (let idKey = idKey_of ''observe'' (or_userId request) (or_idempotencyKey request);
                 (cached, fs1) = lookup_cached fs idKey (lookupNow sched)
             in case cached of
                  Some r \<Rightarrow> (Inr r, fs1)
                | None \<Rightarrow>
                    if or_async request then
                      (let snapshotProfile =
                             (case MemoryAdapter_get (storage fs1) (or_userId request) of
                                None \<Rightarrow> Map.empty | Some existing \<Rightarrow> sr_profile existing);
                           (background, fs2) =
                             processObserve cfg shp sched fs1 request idKey requestId extraction
                       in (Inr \<lparr> res_profile = snapshotProfile, res_updated = Map.empty,
                                 res_rejected = [], res_extracted = Some Map.empty,
                                 res_rawResponse = None, res_latencyMs = None,
                                 res_queued = Some True, res_requestId = Some requestId \<rparr>,
                           fs2))
                    else processObserve cfg shp sched fs1 request idKey requestId extraction))"

subsection \<open>Runs of the system\<close>

text \<open>A sequence of calls on one host, one after the other, each with its clock
  readings and with no other task interleaved.\<close>

datatype operation =
    PatchOp patch_request int int int
  | ObserveOp observe_request string "error + extractor_result" int int int

fun apply_operation ::
  "(string \<Rightarrow> string) \<Rightarrow> fact_sheet_config \<Rightarrow> fact_sheet \<Rightarrow> operation \<Rightarrow> fact_sheet" where
  "apply_operation collationKey cfg fs (PatchOp request t_lookup t_merge t_cache) =
     snd (patch cfg (quiet_schedule collationKey t_lookup t_merge t_cache) fs request)"
| "apply_operation collationKey cfg fs
       (ObserveOp request requestId extraction t_lookup t_merge t_cache) =
     snd (observe cfg (quiet_schedule collationKey t_lookup t_merge t_cache) fs request
            requestId extraction)"

definition new_fact_sheet :: "nat option \<Rightarrow> fact_sheet" where
  "new_fact_sheet mh = \<lparr> storage = empty_adapter mh, idempotencyCache = [] \<rparr>"

definition run_operations ::
  "(string \<Rightarrow> string) \<Rightarrow> fact_sheet_config \<Rightarrow> fact_sheet \<Rightarrow> operation list \<Rightarrow> fact_sheet" where
  "run_operations collationKey cfg fs ops = foldl (apply_operation collationKey cfg) fs ops"

section \<open>Example configuration\<close>

text \<open>A schema in the style of the repository's tests: a required string \<open>name\<close>, an
  optional string \<open>role\<close>, and an optional record \<open>extras\<close>
  (\<^verbatim>\<open>z.record(z.unknown()).optional()\<close>), none of them nullable.\<close>

definition ex_string_schema :: field_schema where
  "ex_string_schema =
     \<lparr> fs_parse = (\<lambda>v. case v of JStr s \<Rightarrow> Some v | _ \<Rightarrow> None), fs_nullable = False \<rparr>"

definition ex_optional_string_schema :: field_schema where
  "ex_optional_string_schema =
     \<lparr> fs_parse = (\<lambda>v. case v of JStr s \<Rightarrow> Some v | JUndefined \<Rightarrow> Some v | _ \<Rightarrow> None),
        fs_nullable = False \<rparr>"

definition ex_optional_record_schema :: field_schema where
  "ex_optional_record_schema =
     \<lparr> fs_parse = (\<lambda>v. case v of JObj kvs \<Rightarrow> Some v | JUndefined \<Rightarrow> Some v | _ \<Rightarrow> None),
        fs_nullable = False \<rparr>"

definition ex_shape :: shape where
  "ex_shape = [''name'' \<mapsto> ex_string_schema, ''role'' \<mapsto> ex_optional_string_schema,
               ''extras'' \<mapsto> ex_optional_record_schema]"

definition ex_config :: fact_sheet_config where
  "ex_config = \<lparr> cfg_schema = Some ex_shape, cfg_policy = DEFAULT_POLICY, cfg_extractor = True \<rparr>"

definition ex_patch :: "(string \<times> jvalue) list \<Rightarrow> real option \<Rightarrow> string option \<Rightarrow> patch_request" where
  "ex_patch facts conf key =
     \<lparr> pr_userId = ''u1'', pr_facts = Some facts, pr_source = Some ''manual'',
        pr_confidence = conf, pr_idempotencyKey = key \<rparr>"

text \<open>Another task that writes subject \<open>u1\<close> without an etag, as a concurrent writer
  would between this call's read and its write.\<close>

definition ex_other_writer :: "memory_adapter \<Rightarrow> memory_adapter" where
  "ex_other_writer a =
     (case MemoryAdapter_set a ''u1'' [''name'' \<mapsto> JStr ''Eve''] Map.empty None None of
        Inr (etag, a') \<Rightarrow> a'
      | Inl err \<Rightarrow> a)"

definition ex_contended_schedule :: schedule where
  "ex_contended_schedule =
     \<lparr> hostCollation = ex_collationKey, lookupNow = 1000, mergeNow = (\<lambda>_. 1000),
        cacheNow = 1000,
        beforePersist = (\<lambda>_. ex_other_writer), beforeReread = (\<lambda>a. a) \<rparr>"

section \<open>Notions used to state the properties of the orchestrator\<close>

text \<open>The error a call throws, if any.\<close>

definition thrown :: "error + 'a \<Rightarrow> error option" where
  "thrown r = (case r of Inl e \<Rightarrow> Some e | Inr _ \<Rightarrow> None)"

text \<open>The merge of attempt \<open>k\<close> of \<open>retry_loop\<close> on the record \<open>existing\<close>, and the
  outcome of that attempt's \<^verbatim>\<open>persist\<close> after the other tasks have run.\<close>

definition merge_attempt ::
  "conflict_policy \<Rightarrow> shape \<Rightarrow> schedule \<Rightarrow> candidate list \<Rightarrow> bool \<Rightarrow> nat \<Rightarrow> storage_record
   \<Rightarrow> merge_result" where
  "merge_attempt policy shp sched candidates skipRecencyCheck k existing =
     mergeCandidates (hostCollation sched) (mergeNow sched k)
       \<lparr> mi_profile = sr_profile existing, mi_provenance = sr_provenance existing,
          mi_candidates = candidates, mi_policy = policy, mi_allowNull = allowsNull shp,
          mi_skipRecencyCheck = skipRecencyCheck \<rparr>"

definition persist_attempt ::
  "conflict_policy \<Rightarrow> shape \<Rightarrow> schedule \<Rightarrow> string \<Rightarrow> candidate list \<Rightarrow> bool \<Rightarrow> nat
   \<Rightarrow> storage_record \<Rightarrow> memory_adapter \<Rightarrow> error + (string \<times> memory_adapter)" where
  "persist_attempt policy shp sched userId candidates skipRecencyCheck k existing a =
     (let merged = merge_attempt policy shp sched candidates skipRecencyCheck k existing
      in persist (beforePersist sched k a) userId (profile merged) (provenance merged)
           (history merged) existing)"

text \<open>The adapter after \<open>merged\<close> has been written for \<open>userId\<close> on top of what the
  adapter held.\<close>

definition written :: "memory_adapter \<Rightarrow> string \<Rightarrow> merge_result \<Rightarrow> memory_adapter" where
  "written a userId merged =
     a\<lparr> store := (store a)(userId \<mapsto>
          \<lparr> sr_profile = profile merged, sr_provenance = provenance merged,
             sr_etag = (case store a userId of
                          None \<Rightarrow> ''1'' | Some ex \<Rightarrow> next_etag (sr_etag ex)),
             e_history =
               (let pushed = (case store a userId of None \<Rightarrow> [] | Some ex \<Rightarrow> e_history ex)
                               @ history merged
                in if truthy_count (maxHistory a) \<and> length pushed > the (maxHistory a)
                   then drop (length pushed - the (maxHistory a)) pushed
                   else pushed) \<rparr>) \<rparr>"

definition ex_ada_candidate :: candidate where
  "ex_ada_candidate =
     \<lparr> c_field = ''name'', c_value = JStr ''Ada'', c_confidence = 1, c_inferred = False,
        c_timestamp = None, c_source = ''manual'' \<rparr>"

text \<open>The store after \<open>patch({userId: "u1", facts: {name: "Ada"}, source: "manual"})\<close> at
  time 1 on a new fact sheet.\<close>

definition ex_fs_ada :: fact_sheet where
  "ex_fs_ada =
     \<lparr> storage =
         \<lparr> store = [''u1'' \<mapsto>
              \<lparr> sr_profile = [''name'' \<mapsto> JStr ''Ada''],
                 sr_provenance = [''name'' \<mapsto>
                    \<lparr> p_value = JStr ''Ada'', p_source = ''manual'', p_timestamp = 1,
                       p_confidence = 1, p_inferred = False \<rparr>],
                 sr_etag = ''1'',
                 e_history = [\<lparr> h_field = ''name'', h_value = JStr ''Ada'',
                                 h_previousValue = None, h_source = ''manual'',
                                 h_timestamp = 1, h_confidence = 1, h_inferred = False,
                                 h_action = ActSet, h_reason = None \<rparr>] \<rparr>],
            maxHistory = None \<rparr>,
        idempotencyCache = [] \<rparr>"

definition ex_ada_result :: call_result where
  "ex_ada_result =
     \<lparr> res_profile = [''name'' \<mapsto> JStr ''Ada''], res_updated = [''name'' \<mapsto> JStr ''Ada''],
        res_rejected = [], res_extracted = None, res_rawResponse = None,
        res_latencyMs = None, res_queued = None, res_requestId = None \<rparr>"

text \<open>A value is a map: a plain object, not an array and not null.\<close>

definition is_plain_object :: "jvalue \<Rightarrow> bool" where
  "is_plain_object v = (case v of JObj _ \<Rightarrow> True | _ \<Rightarrow> False)"

definition ex_extras_candidate :: "jvalue \<Rightarrow> raw_candidate" where
  "ex_extras_candidate v =
     \<lparr> x_field = ''extras'', x_value = v, x_confidence = None, x_inferred = False,
        x_timestamp = None, x_source = None \<rparr>"

definition ex_observe_request :: observe_request where
  "ex_observe_request =
     \<lparr> or_userId = ''u1'', or_source = None, or_confidence = None,
        or_idempotencyKey = None, or_async = False \<rparr>"

text \<open>A schema whose \<open>extras\<close> is a nullable record
  (\<^verbatim>\<open>z.record(z.unknown()).nullable()\<close>).\<close>

definition ex_nullable_record_schema :: field_schema where
  "ex_nullable_record_schema =
     \<lparr> fs_parse = (\<lambda>v. case v of JObj kvs \<Rightarrow> Some v | JNull \<Rightarrow> Some v | _ \<Rightarrow> None),
        fs_nullable = True \<rparr>"

definition ex_nullable_shape :: shape where
  "ex_nullable_shape = [''name'' \<mapsto> ex_string_schema, ''extras'' \<mapsto> ex_nullable_record_schema]"

section \<open>Confidence of stored provenance\<close>

definition conf_ok :: "real \<Rightarrow> bool" where
  "conf_ok x = (0 \<le> x \<and> x \<le> 1)"

definition opt_conf_ok :: "real option \<Rightarrow> bool" where
  "opt_conf_ok x = (case x of None \<Rightarrow> True | Some y \<Rightarrow> conf_ok y)"

definition prov_conf_ok :: "(string \<rightharpoonup> provenance) \<Rightarrow> bool" where
  "prov_conf_ok pv = (\<forall>f p. pv f = Some p \<longrightarrow> conf_ok (p_confidence p))"

text \<open>Every provenance entry of every stored record has its confidence in \<open>[0, 1]\<close>.\<close>

definition store_conf_ok :: "memory_adapter \<Rightarrow> bool" where
  "store_conf_ok a = (\<forall>u e. store a u = Some e \<longrightarrow> prov_conf_ok (sr_provenance e))"

definition cands_conf_ok :: "candidate list \<Rightarrow> bool" where
  "cands_conf_ok cs = (\<forall>c \<in> set cs. conf_ok (c_confidence c))"

text \<open>Every confidence the caller or the extractor supplies with the call lies in
  \<open>[0, 1]\<close>: the request's, and each candidate's.\<close>

fun op_conf_ok :: "operation \<Rightarrow> bool" where
  "op_conf_ok (PatchOp request t_lookup t_merge t_cache) = opt_conf_ok (pr_confidence request)"
| "op_conf_ok (ObserveOp request requestId extraction t_lookup t_merge t_cache) =
     (opt_conf_ok (or_confidence request)
      \<and> (case extraction of
            Inl err \<Rightarrow> True
          | Inr ex \<Rightarrow> (\<forall>c \<in> set (er_candidates ex). opt_conf_ok (x_confidence c))))"

text \<open>The confidence stored in the provenance of a field of a subject, if any.\<close>

definition stored_confidence :: "fact_sheet \<Rightarrow> string \<Rightarrow> string \<Rightarrow> real option" where
  "stored_confidence fs userId field =
     Option.bind (store (storage fs) userId)
       (\<lambda>e. map_option p_confidence (sr_provenance e field))"

section \<open>The merge engine: rule order at the boundaries\<close>

lemma reject_frame [simp]:
  "profile (reject c reason ts st) = profile st"
  "provenance (reject c reason ts st) = provenance st"
  "updated (reject c reason ts st) = updated st"
  by (simp_all add: reject_def)

lemma accept_writes [simp]:
  "profile (accept policy ts st c) =
     (profile st)(c_field c \<mapsto> truncateValue (c_value c) (maxFieldLength policy))"
  "provenance (accept policy ts st c) =
     (provenance st)(c_field c \<mapsto>
        \<lparr> p_value = truncateValue (c_value c) (maxFieldLength policy),
           p_source = c_source c, p_timestamp = ts,
           p_confidence = c_confidence c, p_inferred = c_inferred c \<rparr>)"
  by (simp_all add: accept_def Let_def)

lemma js_le_refl [simp]: "js_le p p"
  by (cases p) simp_all

lemma js_lt_irrefl [simp]: "\<not> js_lt p p"
  by (cases p) simp_all






section \<open>The merge engine: processing order\<close>

lemma priorityOf_numeric:
  "numeric_source policy src \<Longrightarrow> priorityOf policy src = Number (spec_priority policy src)"
  by (auto simp: numeric_source_def priorityOf_def spec_priority_def split: option.splits)

lemma resolvedTimestamp_spec: "resolvedTimestamp nowTs c = spec_timestamp nowTs c"
  by (simp add: resolvedTimestamp_def spec_timestamp_def split: option.splits)

lemma compareCandidates_le_iff:
  assumes "numeric_source policy (c_source a)" and "numeric_source policy (c_source b)"
  shows "nan_as_zero (compareCandidates collationKey policy nowTs a b) \<le> 0
     \<longleftrightarrow> spec_sort_key collationKey policy nowTs a \<le> spec_sort_key collationKey policy nowTs b"
  by (auto simp: compareCandidates_def spec_sort_key_def Let_def less_eq_prod_def
      localeCompare_def nan_as_zero_def priorityOf_numeric [OF assms(1)]
      priorityOf_numeric [OF assms(2)] resolvedTimestamp_spec)

lemma insort_cmp_compareCandidates:
  "numeric_source policy (c_source x) \<Longrightarrow> numeric_sources policy ys \<Longrightarrow>
   insort_cmp (compareCandidates collationKey policy nowTs) x ys
     = insort_key (spec_sort_key collationKey policy nowTs) x ys"
  by (induction ys) (simp_all add: compareCandidates_le_iff numeric_sources_def)

lemma numeric_sources_spec_order:
  "numeric_sources policy (spec_order collationKey policy nowTs cs) = numeric_sources policy cs"
  by (simp add: numeric_sources_def spec_order_def list_all_iff)

lemma sortedCandidates_spec_order:
  "numeric_sources policy cs \<Longrightarrow>
   sortedCandidates collationKey policy nowTs cs = spec_order collationKey policy nowTs cs"
proof (induction cs)
  case Nil
  then show ?case
    by (simp add: sortedCandidates_def spec_order_def array_sort_def)
next
  case (Cons c cs)
  then have c: "numeric_source policy (c_source c)" and cs: "numeric_sources policy cs"
    by (simp_all add: numeric_sources_def)
  have "sortedCandidates collationKey policy nowTs (c # cs)
          = insort_cmp (compareCandidates collationKey policy nowTs) c
              (sortedCandidates collationKey policy nowTs cs)"
    by (simp add: sortedCandidates_def array_sort_def)
  also have "\<dots> = insort_cmp (compareCandidates collationKey policy nowTs) c
                     (spec_order collationKey policy nowTs cs)"
    using Cons.IH [OF cs] by simp
  also have "\<dots> = insort_key (spec_sort_key collationKey policy nowTs) c
                     (spec_order collationKey policy nowTs cs)"
    using c cs by (simp add: insort_cmp_compareCandidates numeric_sources_spec_order)
  also have "\<dots> = spec_order collationKey policy nowTs (c # cs)"
    by (simp add: spec_order_def sort_key_def)
  finally show ?case .
qed

lemma find_in_sorted:
  "sorted (map k xs) \<Longrightarrow> c \<in> set xs \<Longrightarrow> P c \<Longrightarrow> \<exists>d. List.find P xs = Some d \<and> k d \<le> k c"
  by (induction xs) auto

lemma spec_sort_key_rank:
  "spec_sort_key collationKey policy nowTs d \<le> spec_sort_key collationKey policy nowTs c
   \<Longrightarrow> c_field d = c_field c
   \<Longrightarrow> spec_rank policy nowTs c \<le> spec_rank policy nowTs d"
  by (auto simp: spec_sort_key_def spec_rank_def less_eq_prod_def)

lemma first_for_field_is_best:
  assumes "numeric_sources policy cs" and "c \<in> set cs"
  shows "\<exists>d. List.find (\<lambda>d. c_field d = c_field c)
               (sortedCandidates collationKey policy nowTs cs) = Some d
            \<and> spec_rank policy nowTs c \<le> spec_rank policy nowTs d"
proof -
  let ?xs = "spec_order collationKey policy nowTs cs"
  have srt: "sorted (map (spec_sort_key collationKey policy nowTs) ?xs)"
    by (simp add: spec_order_def)
  have mem: "c \<in> set ?xs"
    using assms(2) by (simp add: spec_order_def)
  from find_in_sorted [OF srt mem, of "\<lambda>d. c_field d = c_field c"]
  obtain d where d: "List.find (\<lambda>d. c_field d = c_field c) ?xs = Some d"
    "spec_sort_key collationKey policy nowTs d \<le> spec_sort_key collationKey policy nowTs c"
    by auto
  from d(1) have "c_field d = c_field c"
    by (auto simp: find_Some_iff)
  with d show ?thesis
    by (auto simp: sortedCandidates_spec_order [OF assms(1)] intro: spec_sort_key_rank)
qed

lemma merge_step_cases:
  "(\<exists>reason ts. merge_step policy allowNull skip nowTs st c = reject c reason ts st)
   \<or> (\<exists>ts. merge_step policy allowNull skip nowTs st c = accept policy ts st c)"
  unfolding merge_step_def Let_def by (simp split: option.split) blast

lemma journal_merge_step:
  "map journal_key (history (merge_step policy allowNull skip nowTs st c))
     = map journal_key (history st) @ [candidate_key c]"
  using merge_step_cases [of policy allowNull skip nowTs st c]
  by (auto simp: reject_def accept_def Let_def journal_key_def candidate_key_def)

lemma journal_foldl_merge_step:
  "map journal_key (history (foldl (merge_step policy allowNull skip nowTs) st cs))
     = map journal_key (history st) @ map candidate_key cs"
  by (induction cs arbitrary: st) (simp_all add: journal_merge_step)

lemma journal_mergeCandidates:
  "map journal_key (history (mergeCandidates collationKey nowTs inp))
     = map candidate_key (sortedCandidates collationKey (mi_policy inp) nowTs (mi_candidates inp))"
  by (simp add: mergeCandidates_def journal_foldl_merge_step)

text \<open>
  The order of processing, for a batch each of whose sources has a number for its
  priority (\<open>numeric_sources\<close>). \<open>mergeCandidates\<close> runs its loop over the batch in the
  order of the specification's stable sort (descending effective priority, with 0 for
  an unlisted source, then descending timestamp, then descending confidence, then
  ascending field name in the host's collation): the order is sorted by that key,
  candidates with equal keys keep the order of the batch, the journal of the merge
  lists the candidates in that order, and the first candidate processed for a field is
  the best the batch has for that field (priority, then timestamp, then confidence).
\<close>

theorem mergeCandidates_processing_order:
  assumes "numeric_sources (mi_policy inp) (mi_candidates inp)"
  shows "mergeCandidates collationKey nowTs inp =
     foldl (merge_step (mi_policy inp) (mi_allowNull inp) (mi_skipRecencyCheck inp) nowTs)
       \<lparr> profile = mi_profile inp, provenance = mi_provenance inp,
          updated = Map.empty, rejected = [], history = [] \<rparr>
       (spec_order collationKey (mi_policy inp) nowTs (mi_candidates inp))
   \<and> sortedCandidates collationKey (mi_policy inp) nowTs (mi_candidates inp)
       = spec_order collationKey (mi_policy inp) nowTs (mi_candidates inp)
   \<and> map journal_key (history (mergeCandidates collationKey nowTs inp))
       = map candidate_key (spec_order collationKey (mi_policy inp) nowTs (mi_candidates inp))
   \<and> sorted (map (spec_sort_key collationKey (mi_policy inp) nowTs)
        (sortedCandidates collationKey (mi_policy inp) nowTs (mi_candidates inp)))
   \<and> (\<forall>k. filter (\<lambda>c. spec_sort_key collationKey (mi_policy inp) nowTs c = k)
              (sortedCandidates collationKey (mi_policy inp) nowTs (mi_candidates inp))
          = filter (\<lambda>c. spec_sort_key collationKey (mi_policy inp) nowTs c = k)
              (mi_candidates inp))
   \<and> (\<forall>c \<in> set (mi_candidates inp).
         \<exists>d. List.find (\<lambda>d. c_field d = c_field c)
                (sortedCandidates collationKey (mi_policy inp) nowTs (mi_candidates inp)) = Some d
            \<and> spec_rank (mi_policy inp) nowTs c \<le> spec_rank (mi_policy inp) nowTs d)"
proof -
  note eq = sortedCandidates_spec_order [OF assms, of collationKey nowTs]
  have "mergeCandidates collationKey nowTs inp =
     foldl (merge_step (mi_policy inp) (mi_allowNull inp) (mi_skipRecencyCheck inp) nowTs)
       \<lparr> profile = mi_profile inp, provenance = mi_provenance inp,
          updated = Map.empty, rejected = [], history = [] \<rparr>
       (spec_order collationKey (mi_policy inp) nowTs (mi_candidates inp))"
    by (simp add: mergeCandidates_def eq)
  moreover have "map journal_key (history (mergeCandidates collationKey nowTs inp))
       = map candidate_key (spec_order collationKey (mi_policy inp) nowTs (mi_candidates inp))"
    by (simp add: journal_mergeCandidates eq)
  moreover have "sorted (map (spec_sort_key collationKey (mi_policy inp) nowTs)
        (sortedCandidates collationKey (mi_policy inp) nowTs (mi_candidates inp)))"
    by (simp add: eq spec_order_def)
  moreover have "filter (\<lambda>c. spec_sort_key collationKey (mi_policy inp) nowTs c = k)
              (sortedCandidates collationKey (mi_policy inp) nowTs (mi_candidates inp))
          = filter (\<lambda>c. spec_sort_key collationKey (mi_policy inp) nowTs c = k)
              (mi_candidates inp)" for k
    by (simp add: eq spec_order_def sort_key_stable)
  moreover have "\<exists>d. List.find (\<lambda>d. c_field d = c_field c)
                (sortedCandidates collationKey (mi_policy inp) nowTs (mi_candidates inp)) = Some d
            \<and> spec_rank (mi_policy inp) nowTs c \<le> spec_rank (mi_policy inp) nowTs d"
    if "c \<in> set (mi_candidates inp)" for c
    using assms that by (rule first_for_field_is_best)
  ultimately show ?thesis using eq by blast
qed

lemma ex_collationKey_fields:
  "ex_collationKey ''role'' = ''icWI''"
  "ex_collationKey ''age'' = ''AMI''"
  "ex_collationKey ''Bio'' = ''DQc''"
  by (simp_all add: ex_collationKey_def ex_alphabet_def ex_weights_def)

lemma ex_collation_mixed_case:
  "localeCompare ex_collationKey ''a'' ''B'' = - 1"
  "localeCompare ex_collationKey ''a_b'' ''a1'' = - 1"
  "localeCompare ex_collationKey ''a1'' ''aB'' = - 1"
  by (simp_all add: localeCompare_def ex_collationKey_def ex_alphabet_def ex_weights_def)

lemma ex_mixed_order:
  "map candidate_key (sortedCandidates ex_collationKey DEFAULT_POLICY 30000 ex_mixed_batch)
     = [(''role'', ''crm'', 0.7, False), (''role'', ''crm'', 0.5, False),
        (''age'', ''manual'', 0.8, False), (''Bio'', ''manual'', 0.8, False),
        (''role'', ''observe'', 0.9, False), (''role'', ''webhook'', 1, False)]"
  by (simp add: sortedCandidates_def array_sort_def ex_mixed_batch_def ex_fact_def
      compareCandidates_def Let_def DEFAULT_POLICY_def priorityOf_def objectPrototypeMembers_def
      resolvedTimestamp_def localeCompare_def nan_as_zero_def candidate_key_def
      ex_collationKey_fields)

theorem mergeCandidates_processing_order_witness:
  "numeric_sources (mi_policy ex_mixed_input) (mi_candidates ex_mixed_input)
   \<and> ex_fact ''role'' ''webhook'' 20000 1 \<in> set (mi_candidates ex_mixed_input)
   \<and> (\<exists>d. List.find (\<lambda>d. c_field d = ''role'')
             (sortedCandidates ex_collationKey (mi_policy ex_mixed_input) 30000
                (mi_candidates ex_mixed_input)) = Some d
         \<and> spec_rank (mi_policy ex_mixed_input) 30000 (ex_fact ''role'' ''webhook'' 20000 1)
             \<le> spec_rank (mi_policy ex_mixed_input) 30000 d)
   \<and> map journal_key (history (mergeCandidates ex_collationKey 30000 ex_mixed_input))
       = [(''role'', ''crm'', 0.7, False), (''role'', ''crm'', 0.5, False),
          (''age'', ''manual'', 0.8, False), (''Bio'', ''manual'', 0.8, False),
          (''role'', ''observe'', 0.9, False), (''role'', ''webhook'', 1, False)]"
proof -
  let ?c = "ex_fact ''role'' ''webhook'' 20000 1"
  have pol: "mi_policy ex_mixed_input = DEFAULT_POLICY"
    and cs: "mi_candidates ex_mixed_input = ex_mixed_batch"
    by (simp_all add: ex_mixed_input_def)
  have num: "numeric_sources (mi_policy ex_mixed_input) (mi_candidates ex_mixed_input)"
    by (simp add: pol cs numeric_sources_def numeric_source_def ex_mixed_batch_def ex_fact_def
        DEFAULT_POLICY_def objectPrototypeMembers_def)
  have mem: "?c \<in> set (mi_candidates ex_mixed_input)"
    by (simp add: cs ex_mixed_batch_def)
  have fld: "c_field ?c = ''role''"
    by (simp add: ex_fact_def)
  note order = mergeCandidates_processing_order [OF num, of ex_collationKey 30000]
  from order mem
  have "\<exists>d. List.find (\<lambda>d. c_field d = c_field ?c)
             (sortedCandidates ex_collationKey (mi_policy ex_mixed_input) 30000
                (mi_candidates ex_mixed_input)) = Some d
         \<and> spec_rank (mi_policy ex_mixed_input) 30000 ?c
             \<le> spec_rank (mi_policy ex_mixed_input) 30000 d"
    by blast
  moreover have "map journal_key (history (mergeCandidates ex_collationKey 30000 ex_mixed_input))
          = map candidate_key
              (sortedCandidates ex_collationKey (mi_policy ex_mixed_input) 30000
                 (mi_candidates ex_mixed_input))"
  proof -
    from order
    have "map journal_key (history (mergeCandidates ex_collationKey 30000 ex_mixed_input))
            = map candidate_key
                (spec_order ex_collationKey (mi_policy ex_mixed_input) 30000
                   (mi_candidates ex_mixed_input))"
      and "sortedCandidates ex_collationKey (mi_policy ex_mixed_input) 30000
             (mi_candidates ex_mixed_input)
            = spec_order ex_collationKey (mi_policy ex_mixed_input) 30000
                (mi_candidates ex_mixed_input)"
      by blast+
    then show ?thesis by simp
  qed
  ultimately show ?thesis using num mem by (simp add: fld pol cs ex_mixed_order)
qed

lemma priorityOf_unlisted_member:
  "src \<in> set objectPrototypeMembers \<Longrightarrow> sourcePriority policy src = None
   \<Longrightarrow> priorityOf policy src = Inherited src"
  by (simp add: priorityOf_def)

lemma js_minus_Inherited [simp]: "js_minus p (Inherited n) = None"
  by (cases p) simp_all

text \<open>
  Claim C6, what the code does. The claim orders the batch by descending effective
  priority first, and ranks a source that the policy does not list at priority 0. The
  lookup \<^verbatim>\<open>policy.sourcePriority[source] ?? 0\<close> does so unless the source bears the name
  of a member of \<^verbatim>\<open>Object.prototype\<close>: then it yields that member, not 0, the priority
  difference with any other candidate is NaN in both directions, and the sort leaves
  such a candidate and its neighbour in the order of the batch, whatever their
  priorities, timestamps and confidences. (For every batch without such a source the
  order is the claim's, as proved above.)
\<close>

theorem unlisted_member_source_not_ranked_zero:
  assumes "c_source a \<in> set objectPrototypeMembers"
    and "sourcePriority policy (c_source a) = None"
  shows "priorityOf policy (c_source a) = Inherited (c_source a)
       \<and> priorityOf policy (c_source a) \<noteq> Number 0
       \<and> compareCandidates collationKey policy nowTs a b = None
       \<and> compareCandidates collationKey policy nowTs b a = None
       \<and> sortedCandidates collationKey policy nowTs [a, b] = [a, b]
       \<and> sortedCandidates collationKey policy nowTs [b, a] = [b, a]"
proof -
  have p: "priorityOf policy (c_source a) = Inherited (c_source a)"
    using assms by (rule priorityOf_unlisted_member)
  have ab: "compareCandidates collationKey policy nowTs a b = None"
    by (simp add: compareCandidates_def p)
  have ba: "compareCandidates collationKey policy nowTs b a = None"
    by (simp add: compareCandidates_def p)
  show ?thesis
    by (simp add: p ab ba sortedCandidates_def array_sort_def nan_as_zero_def)
qed

theorem unlisted_member_source_not_ranked_zero_witness:
  "c_source ex_guess \<in> set objectPrototypeMembers
   \<and> sourcePriority DEFAULT_POLICY (c_source ex_guess) = None
   \<and> priorityOf DEFAULT_POLICY (c_source ex_guess) \<noteq> Number 0
   \<and> priorityOf DEFAULT_POLICY (c_source ex_crm) = Number 3
   \<and> sortedCandidates ex_collationKey DEFAULT_POLICY 3000 [ex_guess, ex_crm] = [ex_guess, ex_crm]
   \<and> spec_order ex_collationKey DEFAULT_POLICY 3000 [ex_guess, ex_crm] = [ex_crm, ex_guess]
   \<and> map h_source (history (mergeCandidates ex_collationKey 3000 ex_guess_input))
       = [''constructor'', ''crm'']"
proof -
  have h1: "c_source ex_guess \<in> set objectPrototypeMembers"
    by (simp add: ex_guess_def objectPrototypeMembers_def)
  have h2: "sourcePriority DEFAULT_POLICY (c_source ex_guess) = None"
    by (simp add: ex_guess_def DEFAULT_POLICY_def)
  have crm: "priorityOf DEFAULT_POLICY (c_source ex_crm) = Number 3"
    by (simp add: ex_crm_def DEFAULT_POLICY_def priorityOf_def)
  have spec: "spec_order ex_collationKey DEFAULT_POLICY 3000 [ex_guess, ex_crm] = [ex_crm, ex_guess]"
    by (simp add: spec_order_def spec_sort_key_def spec_priority_def spec_timestamp_def
        ex_guess_def ex_crm_def DEFAULT_POLICY_def less_eq_prod_def)
  note div = unlisted_member_source_not_ranked_zero
               [OF h1 h2, of ex_collationKey 3000 ex_crm]
  have jk: "map journal_key (history (mergeCandidates ex_collationKey 3000 ex_guess_input))
          = map candidate_key [ex_guess, ex_crm]"
    using div by (simp add: journal_mergeCandidates ex_guess_input_def)
  have "map h_source (history (mergeCandidates ex_collationKey 3000 ex_guess_input))
          = map (\<lambda>k. fst (snd k))
              (map journal_key (history (mergeCandidates ex_collationKey 3000 ex_guess_input)))"
    by (simp add: journal_key_def)
  also have "\<dots> = map (\<lambda>k. fst (snd k)) (map candidate_key [ex_guess, ex_crm])"
    by (simp only: jk)
  also have "\<dots> = [''constructor'', ''crm'']"
    by (simp add: candidate_key_def ex_guess_def ex_crm_def)
  finally have src: "map h_source (history (mergeCandidates ex_collationKey 3000 ex_guess_input))
          = [''constructor'', ''crm'']" .
  from div h1 h2 crm spec src show ?thesis by simp
qed

section \<open>The merge engine: string fields stay within \<open>max_field_length\<close>\<close>

lemma truncateValue_length: "truncateValue v m = JStr s \<Longrightarrow> length s \<le> m"
  by (cases v) (auto simp: truncateValue_def split: if_splits)

lemma step_inv_reject: "step_inv m st \<Longrightarrow> step_inv m (reject c reason ts st)"
  by (auto simp: step_inv_def sets_bounded_def reject_def)

lemma step_inv_accept:
  "step_inv (maxFieldLength policy) st \<Longrightarrow> step_inv (maxFieldLength policy) (accept policy ts st c)"
  by (auto simp: step_inv_def sets_bounded_def strings_bounded_def accept_def Let_def
      dest: truncateValue_length)

lemma step_inv_merge_step:
  "step_inv (maxFieldLength policy) st
   \<Longrightarrow> step_inv (maxFieldLength policy) (merge_step policy allowNull skip nowTs st c)"
  using merge_step_cases [of policy allowNull skip nowTs st c]
  by (auto intro: step_inv_reject step_inv_accept)

lemma strings_bounded_merge_step:
  "strings_bounded (maxFieldLength policy) (profile st)
   \<Longrightarrow> strings_bounded (maxFieldLength policy)
         (profile (merge_step policy allowNull skip nowTs st c))"
  using merge_step_cases [of policy allowNull skip nowTs st c]
  by (auto simp: strings_bounded_def dest: truncateValue_length split: if_splits)

lemma foldl_invariant: "(\<And>st c. P st \<Longrightarrow> P (f st c)) \<Longrightarrow> P st \<Longrightarrow> P (foldl f st cs)"
  by (induction cs arbitrary: st) auto

lemma mergeCandidates_step_inv:
  "step_inv (maxFieldLength (mi_policy inp)) (mergeCandidates collationKey nowTs inp)"
  unfolding mergeCandidates_def
proof (rule foldl_invariant [where P = "step_inv (maxFieldLength (mi_policy inp))"])
  show "step_inv (maxFieldLength (mi_policy inp))
     \<lparr> profile = mi_profile inp, provenance = mi_provenance inp,
        updated = Map.empty, rejected = [], history = [] \<rparr>"
    by (simp add: step_inv_def sets_bounded_def strings_bounded_def)
qed (rule step_inv_merge_step)

lemma mergeCandidates_strings_bounded:
  "strings_bounded (maxFieldLength (mi_policy inp)) (mi_profile inp) \<Longrightarrow>
   strings_bounded (maxFieldLength (mi_policy inp)) (profile (mergeCandidates collationKey nowTs inp))"
  unfolding mergeCandidates_def
  by (rule foldl_invariant
        [where P = "\<lambda>st. strings_bounded (maxFieldLength (mi_policy inp)) (profile st)"])
     (auto intro: strings_bounded_merge_step)

lemma merged_from_empty_bounded:
  "merged_from_empty policy prof prov \<Longrightarrow> strings_bounded (maxFieldLength policy) prof"
proof (induction rule: merged_from_empty.induct)
  case initial
  then show ?case by (simp add: strings_bounded_def)
next
  case (merge prof prov r collationKey nowTs cs allowNull skip)
  then show ?case
    using mergeCandidates_strings_bounded
      [where inp = "\<lparr> mi_profile = prof, mi_provenance = prov, mi_candidates = cs,
             mi_policy = policy, mi_allowNull = allowNull, mi_skipRecencyCheck = skip \<rparr>"
         and nowTs = nowTs and collationKey = collationKey]
    by simp
qed

text \<open>
  Claim C9. In the result of every merge, each journal entry with action \<open>set\<close> and a
  string value, and each string in \<open>updated\<close>, has at most \<open>max_field_length\<close>
  characters: the accepted value is stored truncated. Hence the bound on the whole
  profile is kept by every merge, and holds for every profile the engine builds from
  the empty record under one policy.
\<close>

theorem accepted_strings_within_max_field_length:
  "sets_bounded (maxFieldLength (mi_policy inp)) (history (mergeCandidates collationKey nowTs inp))
   \<and> strings_bounded (maxFieldLength (mi_policy inp)) (updated (mergeCandidates collationKey nowTs inp))
   \<and> (strings_bounded (maxFieldLength (mi_policy inp)) (mi_profile inp)
        \<longrightarrow> strings_bounded (maxFieldLength (mi_policy inp)) (profile (mergeCandidates collationKey nowTs inp)))
   \<and> (merged_from_empty (mi_policy inp) prof prov
        \<longrightarrow> strings_bounded (maxFieldLength (mi_policy inp)) prof)"
  using mergeCandidates_step_inv [of inp collationKey nowTs]
    mergeCandidates_strings_bounded [of inp collationKey nowTs]
    merged_from_empty_bounded [of "mi_policy inp" prof prov]
  by (simp add: step_inv_def)

theorem accepted_strings_within_max_field_length_witness:
  "map h_action (history (mergeCandidates ex_collationKey 2000 ex_long_input)) = [ActSet]
   \<and> map h_value (history (mergeCandidates ex_collationKey 2000 ex_long_input)) = [JStr ''engin'']
   \<and> profile (mergeCandidates ex_collationKey 2000 ex_long_input) ''role'' = Some (JStr ''engin'')
   \<and> maxFieldLength (mi_policy ex_long_input) = 5
   \<and> sets_bounded 5 (history (mergeCandidates ex_collationKey 2000 ex_long_input))
   \<and> strings_bounded 5 (mi_profile ex_long_input)
   \<and> merged_from_empty (mi_policy ex_long_input)
        (profile (mergeCandidates ex_collationKey 2000 ex_long_input))
        (provenance (mergeCandidates ex_collationKey 2000 ex_long_input))
   \<and> strings_bounded 5 (profile (mergeCandidates ex_collationKey 2000 ex_long_input))"
proof -
  let ?r = "mergeCandidates ex_collationKey 2000 ex_long_input"
  have run: "?r = accept (DEFAULT_POLICY\<lparr> maxFieldLength := 5 \<rparr>) 2000
       \<lparr> profile = Map.empty, provenance = Map.empty, updated = Map.empty,
          rejected = [], history = [] \<rparr>
       \<lparr> c_field = ''role'', c_value = JStr ''engineering'', c_confidence = 1,
          c_inferred = False, c_timestamp = None, c_source = ''manual'' \<rparr>"
    by (simp add: mergeCandidates_def ex_long_input_def sortedCandidates_def array_sort_def
        merge_step_def DEFAULT_POLICY_def resolvedTimestamp_def Let_def)
  have tr: "truncateValue (JStr ''engineering'') 5 = JStr ''engin''"
    by (simp add: truncateValue_def)
  have hist: "map h_action (history ?r) = [ActSet]" "map h_value (history ?r) = [JStr ''engin'']"
    unfolding run by (simp_all add: accept_def Let_def tr)
  have prof: "profile ?r ''role'' = Some (JStr ''engin'')"
    unfolding run by (simp add: tr)
  have pol: "maxFieldLength (mi_policy ex_long_input) = 5"
    "mi_policy ex_long_input = DEFAULT_POLICY\<lparr> maxFieldLength := 5 \<rparr>"
    by (simp_all add: ex_long_input_def)
  have h0: "strings_bounded 5 (mi_profile ex_long_input)"
    by (simp add: strings_bounded_def ex_long_input_def)
  have reach: "merged_from_empty (mi_policy ex_long_input) (profile ?r) (provenance ?r)"
    by (rule merged_from_empty.merge [OF merged_from_empty.initial])
       (simp add: ex_long_input_def)
  from accepted_strings_within_max_field_length
         [where inp = ex_long_input and collationKey = ex_collationKey and nowTs = 2000
            and prof = "profile ?r" and prov = "provenance ?r"] h0 reach pol(1)
  have "sets_bounded 5 (history ?r)" "strings_bounded 5 (profile ?r)"
    by simp_all
  with hist prof pol(1) h0 reach show ?thesis by blast
qed

section \<open>The in-memory adapter: first write\<close>

text \<open>
  Claim C10. For a subject with no stored record, \<open>MemoryAdapter.set\<close> succeeds
  whatever options (etag, force) are supplied: it never raises \<open>ConcurrencyError\<close> on
  a first write, and the new record gets the etag \<^verbatim>\<open>"1"\<close>.
\<close>

theorem MemoryAdapter_set_first_write:
  assumes "store a userId = None"
  shows "\<exists>a'. MemoryAdapter_set a userId prof prov options historyEntries = Inr (''1'', a')
            \<and> map_option sr_etag (store a' userId) = Some ''1''
            \<and> map_option sr_profile (store a' userId) = Some prof
            \<and> map_option sr_provenance (store a' userId) = Some prov"
  using assms by (simp add: MemoryAdapter_set_def Let_def)

theorem MemoryAdapter_set_first_write_witness:
  "store (empty_adapter None) ''u1'' = None
   \<and> (\<exists>a'. MemoryAdapter_set (empty_adapter None) ''u1'' Map.empty Map.empty
              (Some \<lparr> o_etag = Some ''7'', o_force = None \<rparr>) (Some [])
            = Inr (''1'', a')
          \<and> map_option sr_etag (store a' ''u1'') = Some ''1'')"
proof -
  have h: "store (empty_adapter None) ''u1'' = None"
    by (simp add: empty_adapter_def)
  from MemoryAdapter_set_first_write [OF h, of Map.empty Map.empty
         "Some \<lparr> o_etag = Some ''7'', o_force = None \<rparr>" "Some []"] h
  show ?thesis by blast
qed

section \<open>The orchestrator: retry on a concurrent write\<close>

lemma retry_loop_first:
  "retry_loop policy shp sched userId cs skip 0 existing lastError a =
     (case persist_attempt policy shp sched userId cs skip 0 existing a of
        Inr (etag, a2) \<Rightarrow> (Inr (merge_attempt policy shp sched cs skip 0 existing), a2)
      | Inl err \<Rightarrow>
          if is_ConcurrencyError err
          then retry_loop policy shp sched userId cs skip 1
                 (read_or_default (beforeReread sched (beforePersist sched 0 a)) userId)
                 (Some err) (beforeReread sched (beforePersist sched 0 a))
          else (Inl err, beforePersist sched 0 a))"
  by (subst retry_loop.simps)
     (simp add: Let_def persist_attempt_def merge_attempt_def split: sum.splits prod.splits)

lemma retry_loop_second:
  "retry_loop policy shp sched userId cs skip (Suc 0) existing lastError a =
     (case persist_attempt policy shp sched userId cs skip (Suc 0) existing a of
        Inr (etag, a2) \<Rightarrow> (Inr (merge_attempt policy shp sched cs skip (Suc 0) existing), a2)
      | Inl err \<Rightarrow> (Inl err, beforePersist sched (Suc 0) a))"
  by (subst retry_loop.simps)
     (simp add: Let_def persist_attempt_def merge_attempt_def split: sum.splits prod.splits)

lemma persist_own_read:
  "persist a userId (profile m) (provenance m) (history m) (read_or_default a userId) =
     Inr (case store a userId of None \<Rightarrow> ''1'' | Some ex \<Rightarrow> next_etag (sr_etag ex),
          written a userId m)"
  by (auto simp: persist_def MemoryAdapter_set_def read_or_default_def MemoryAdapter_get_def
        defaultRecord_def Let_def truthy_string_def written_def split: option.splits)

lemma persist_conflict:
  "store a userId = Some ex \<Longrightarrow> sr_etag existing \<noteq> [] \<Longrightarrow> sr_etag ex \<noteq> sr_etag existing \<Longrightarrow>
   persist a userId prof prov hist existing = Inl (ConcurrencyError (Some (sr_etag ex)))"
  by (simp add: persist_def MemoryAdapter_set_def truthy_string_def Let_def)

lemma quiet_first_attempt:
  assumes "beforePersist sched 0 a = a"
  shows "mergeAndPersistWithRetry policy shp sched a userId cs skip =
           (Inr (merge_attempt policy shp sched cs skip 0 (read_or_default a userId)),
            written a userId (merge_attempt policy shp sched cs skip 0 (read_or_default a userId)))"
  by (simp add: mergeAndPersistWithRetry_def retry_loop_first persist_attempt_def assms
      persist_own_read)

lemma MemoryAdapter_set_error:
  "MemoryAdapter_set a u p pv opts hs = Inl e \<Longrightarrow> is_ConcurrencyError e"
  by (auto simp: MemoryAdapter_set_def Let_def split: if_splits)

lemma persist_attempt_error:
  "persist_attempt policy shp sched u cs skip k existing a = Inl e \<Longrightarrow> is_ConcurrencyError e"
  by (auto simp: persist_attempt_def persist_def Let_def dest: MemoryAdapter_set_error)

text \<open>The statement after the loop is never reached: over the in-memory adapter
  \<open>mergeAndPersistWithRetry\<close> throws no \<open>PersistenceError\<close>, whatever the other tasks do.\<close>

lemma mergeAndPersistWithRetry_never_PersistenceError:
  "thrown (fst (mergeAndPersistWithRetry policy shp sched a u cs skip))
     \<noteq> Some (PersistenceError n c)"
  by (auto simp: mergeAndPersistWithRetry_def retry_loop_first retry_loop_second thrown_def
      split: sum.splits prod.splits dest: persist_attempt_error)

text \<open>The retry itself: after a conflict on the first persist, the record is read
  again, merged again, and a persist that now succeeds ends the call with the second
  merge.\<close>

lemma retry_after_first_conflict:
  assumes "persist_attempt policy shp sched u cs skip 0 (read_or_default a u) a
             = Inl (ConcurrencyError x0)"
    and "a3 = beforeReread sched (beforePersist sched 0 a)"
    and "persist_attempt policy shp sched u cs skip 1 (read_or_default a3 u) a3
             = Inr (etag, a4)"
  shows "mergeAndPersistWithRetry policy shp sched a u cs skip
           = (Inr (merge_attempt policy shp sched cs skip 1 (read_or_default a3 u)), a4)"
  using assms
  by (simp add: mergeAndPersistWithRetry_def retry_loop_first retry_loop_second)

text \<open>
  Claim C1, what the code does. When the first persist fails with a CAS conflict the
  orchestrator re-reads, re-merges and retries once, as the claim says. When the
  retried persist fails with a CAS conflict too, the \<^verbatim>\<open>catch\<close> block rethrows that
  \<open>ConcurrencyError\<close> (its test \<^verbatim>\<open>attempts === 0\<close> is false), so the call fails with
  the second \<open>ConcurrencyError\<close> and not with the \<open>PersistenceError\<close> that the
  statement after the loop would build.
\<close>

theorem second_conflict_raises_ConcurrencyError:
  assumes "persist_attempt policy shp sched u cs skip 0 (read_or_default a u) a
             = Inl (ConcurrencyError x0)"
    and "a3 = beforeReread sched (beforePersist sched 0 a)"
    and "persist_attempt policy shp sched u cs skip 1 (read_or_default a3 u) a3
             = Inl (ConcurrencyError x1)"
  shows "mergeAndPersistWithRetry policy shp sched a u cs skip
           = (Inl (ConcurrencyError x1), beforePersist sched 1 a3)"
  using assms
  by (simp add: mergeAndPersistWithRetry_def retry_loop_first retry_loop_second)

lemma ex_other_writer_first:
  "ex_other_writer (empty_adapter None) =
     \<lparr> store = [''u1'' \<mapsto> \<lparr> sr_profile = [''name'' \<mapsto> JStr ''Eve''], sr_provenance = Map.empty,
                          sr_etag = ''1'', e_history = [] \<rparr>],
        maxHistory = None \<rparr>"
  by (simp add: ex_other_writer_def empty_adapter_def MemoryAdapter_set_def truthy_string_def
      Let_def)

lemma read_or_default_empty: "read_or_default (empty_adapter mh) u = defaultRecord"
  by (simp add: read_or_default_def MemoryAdapter_get_def empty_adapter_def)

lemma next_etag_1: "next_etag ''1'' = ''2''"
  by code_simp

lemma ex_other_writer_second:
  "ex_other_writer (ex_other_writer (empty_adapter None)) =
     \<lparr> store = [''u1'' \<mapsto> \<lparr> sr_profile = [''name'' \<mapsto> JStr ''Eve''], sr_provenance = Map.empty,
                          sr_etag = ''2'', e_history = [] \<rparr>],
        maxHistory = None \<rparr>"
  unfolding ex_other_writer_first
  by (simp add: ex_other_writer_def MemoryAdapter_set_def truthy_string_def Let_def next_etag_1)

lemma ex_patch_sel [simp]:
  "pr_userId (ex_patch facts conf key) = ''u1''"
  "pr_facts (ex_patch facts conf key) = Some facts"
  "pr_source (ex_patch facts conf key) = Some ''manual''"
  "pr_confidence (ex_patch facts conf key) = conf"
  "pr_idempotencyKey (ex_patch facts conf key) = key"
  by (simp_all add: ex_patch_def)

lemma ex_patch_ada_candidates:
  "patch_candidates ex_shape DEFAULT_POLICY (ex_patch [(''name'', JStr ''Ada'')] conf key)
     = ([], [ex_ada_candidate\<lparr> c_confidence := (case conf of None \<Rightarrow> 1 | Some x \<Rightarrow> x) \<rparr>])"
  by (simp add: patch_candidates_def ex_patch_def patch_field_def ex_shape_def
      ex_string_schema_def ex_ada_candidate_def)

lemma ex_patch_ada_plain:
  "patch_candidates ex_shape DEFAULT_POLICY (ex_patch [(''name'', JStr ''Ada'')] None key)
     = ([], [ex_ada_candidate])"
  by (simp add: ex_patch_ada_candidates) (simp add: ex_ada_candidate_def)

theorem second_conflict_raises_ConcurrencyError_witness:
  "persist_attempt DEFAULT_POLICY ex_shape ex_contended_schedule ''u1'' [ex_ada_candidate] True 0
     (read_or_default (empty_adapter None) ''u1'') (empty_adapter None)
     = Inl (ConcurrencyError (Some ''1''))
   \<and> persist_attempt DEFAULT_POLICY ex_shape ex_contended_schedule ''u1'' [ex_ada_candidate] True 1
       (read_or_default (ex_other_writer (empty_adapter None)) ''u1'')
       (ex_other_writer (empty_adapter None))
     = Inl (ConcurrencyError (Some ''2''))
   \<and> thrown (fst (patch ex_config ex_contended_schedule (new_fact_sheet None)
                    (ex_patch [(''name'', JStr ''Ada'')] None None)))
     = Some (ConcurrencyError (Some ''2''))"
proof -
  let ?a = "empty_adapter None"
  let ?a3 = "ex_other_writer ?a"
  have h1: "persist_attempt DEFAULT_POLICY ex_shape ex_contended_schedule ''u1''
              [ex_ada_candidate] True 0 (read_or_default ?a ''u1'') ?a
            = Inl (ConcurrencyError (Some ''1''))"
    unfolding persist_attempt_def Let_def
    by (subst persist_conflict [where ex = "\<lparr> sr_profile = [''name'' \<mapsto> JStr ''Eve''],
              sr_provenance = Map.empty, sr_etag = ''1'', e_history = [] \<rparr>"])
       (simp_all add: ex_contended_schedule_def ex_other_writer_first
          read_or_default_empty defaultRecord_def)
  have h2: "?a3 = beforeReread ex_contended_schedule (beforePersist ex_contended_schedule 0 ?a)"
    by (simp add: ex_contended_schedule_def)
  have r3: "sr_etag (read_or_default ?a3 ''u1'') = ''1''"
    by (simp add: ex_other_writer_first read_or_default_def MemoryAdapter_get_def)
  have s3: "store (beforePersist ex_contended_schedule 1 ?a3) ''u1''
              = Some \<lparr> sr_profile = [''name'' \<mapsto> JStr ''Eve''], sr_provenance = Map.empty,
                       sr_etag = ''2'', e_history = [] \<rparr>"
    by (simp add: ex_contended_schedule_def ex_other_writer_second)
  have h3: "persist_attempt DEFAULT_POLICY ex_shape ex_contended_schedule ''u1''
              [ex_ada_candidate] True 1 (read_or_default ?a3 ''u1'') ?a3
            = Inl (ConcurrencyError (Some ''2''))"
    unfolding persist_attempt_def Let_def
    by (subst persist_conflict [OF s3]) (simp_all add: r3)
  from second_conflict_raises_ConcurrencyError [OF h1 h2 h3]
  have run: "mergeAndPersistWithRetry DEFAULT_POLICY ex_shape ex_contended_schedule ?a ''u1''
               [ex_ada_candidate] True
             = (Inl (ConcurrencyError (Some ''2'')),
                beforePersist ex_contended_schedule 1 ?a3)" .
  have "thrown (fst (patch ex_config ex_contended_schedule (new_fact_sheet None)
                    (ex_patch [(''name'', JStr ''Ada'')] None None)))
     = Some (ConcurrencyError (Some ''2''))"
    by (simp add: patch_def ex_config_def idKey_of_def lookup_cached_def new_fact_sheet_def
        ex_patch_ada_plain run thrown_def)
  with h1 h3 show ?thesis by blast
qed

section \<open>The orchestrator: an empty batch\<close>

lemma merge_attempt_empty:
  "merge_attempt policy shp sched [] skip k existing =
     \<lparr> profile = sr_profile existing, provenance = sr_provenance existing,
        updated = Map.empty, rejected = [], history = [] \<rparr>"
  by (simp add: merge_attempt_def mergeCandidates_def sortedCandidates_def array_sort_def)

text \<open>A call that misses the idempotency cache and is not disturbed between its read
  and its write: the merge of the first attempt is written and returned.\<close>

lemma patch_fresh:
  assumes "cfg_schema cfg = Some shp"
    and "lookup_cached fs (idKey_of ''patch'' (pr_userId req) (pr_idempotencyKey req))
           (lookupNow sched) = (None, fs1)"
    and "beforePersist sched 0 (storage fs1) = storage fs1"
    and "patch_candidates shp (cfg_policy cfg) req = (rej, accepted)"
    and "m = merge_attempt (cfg_policy cfg) shp sched accepted True 0
               (read_or_default (storage fs1) (pr_userId req))"
    and "result = \<lparr> res_profile = profile m, res_updated = updated m,
                     res_rejected = rej @ rejected m, res_extracted = None,
                     res_rawResponse = None, res_latencyMs = None, res_queued = None,
                     res_requestId = None \<rparr>"
  shows "patch cfg sched fs req =
           (Inr result,
            store_cached (fs1\<lparr> storage := written (storage fs1) (pr_userId req) m \<rparr>)
              (idKey_of ''patch'' (pr_userId req) (pr_idempotencyKey req)) result
              (cacheNow sched))"
  using assms(1,2,4)
  by (simp add: patch_def Let_def quiet_first_attempt [OF assms(3)] assms(5,6))

text \<open>
  Claim C2, as amended. A call whose batch reaching the merge engine is empty still
  writes. When no other task writes between the call's read and its write, the write
  succeeds: the merge returns the record as read with nothing updated, rejected or
  journaled; the stored profile and provenance of the subject are those read (empty
  ones, in a record created by this write, when the subject had none); the etag
  advances (\<^verbatim>\<open>"1"\<close> for a new record, \<^verbatim>\<open>String(Number(etag) + 1)\<close> otherwise); other
  subjects are untouched.
\<close>

theorem empty_batch_still_writes:
  assumes "beforePersist sched 0 a = a"
  shows "\<exists>a'. mergeAndPersistWithRetry policy shp sched a u [] skip
             = (Inr \<lparr> profile = sr_profile (read_or_default a u),
                      provenance = sr_provenance (read_or_default a u),
                      updated = Map.empty, rejected = [], history = [] \<rparr>, a')
     \<and> map_option sr_profile (store a' u) = Some (sr_profile (read_or_default a u))
     \<and> map_option sr_provenance (store a' u) = Some (sr_provenance (read_or_default a u))
     \<and> map_option sr_etag (store a' u)
          = Some (case store a u of None \<Rightarrow> ''1'' | Some ex \<Rightarrow> next_etag (sr_etag ex))
     \<and> (\<forall>v. v \<noteq> u \<longrightarrow> store a' v = store a v)"
  by (simp add: quiet_first_attempt [OF assms] merge_attempt_empty written_def)

theorem empty_batch_still_writes_witness:
  "beforePersist (quiet_schedule ex_collationKey 2 2 2) 0 (storage ex_fs_ada) = storage ex_fs_ada
   \<and> (\<exists>a'. fst (mergeAndPersistWithRetry DEFAULT_POLICY ex_shape (quiet_schedule ex_collationKey 2 2 2)
                   (storage ex_fs_ada) ''u1'' [] True)
            = Inr \<lparr> profile = sr_profile (read_or_default (storage ex_fs_ada) ''u1''),
                     provenance = sr_provenance (read_or_default (storage ex_fs_ada) ''u1''),
                     updated = Map.empty, rejected = [], history = [] \<rparr>
          \<and> snd (mergeAndPersistWithRetry DEFAULT_POLICY ex_shape (quiet_schedule ex_collationKey 2 2 2)
                   (storage ex_fs_ada) ''u1'' [] True) = a'
          \<and> map_option sr_etag (store a' ''u1'') = Some ''2'')"
proof -
  have h: "beforePersist (quiet_schedule ex_collationKey 2 2 2) 0 (storage ex_fs_ada) = storage ex_fs_ada"
    by (simp add: quiet_schedule_def)
  have e: "(case store (storage ex_fs_ada) ''u1'' of
              None \<Rightarrow> ''1'' | Some ex \<Rightarrow> next_etag (sr_etag ex)) = ''2''"
    by (simp add: ex_fs_ada_def next_etag_1)
  from empty_batch_still_writes [OF h, of DEFAULT_POLICY ex_shape "''u1''" True]
  obtain a' where
    "mergeAndPersistWithRetry DEFAULT_POLICY ex_shape (quiet_schedule ex_collationKey 2 2 2)
       (storage ex_fs_ada) ''u1'' [] True
     = (Inr \<lparr> profile = sr_profile (read_or_default (storage ex_fs_ada) ''u1''),
              provenance = sr_provenance (read_or_default (storage ex_fs_ada) ''u1''),
              updated = Map.empty, rejected = [], history = [] \<rparr>, a')"
    "map_option sr_etag (store a' ''u1'')
     = Some (case store (storage ex_fs_ada) ''u1'' of
               None \<Rightarrow> ''1'' | Some ex \<Rightarrow> next_etag (sr_etag ex))"
    by blast
  with h e show ?thesis by simp
qed

lemma lookup_cached_no_key [simp]: "lookup_cached fs None now = (None, fs)"
  by (simp add: lookup_cached_def)

lemma store_cached_no_key [simp]: "store_cached fs None v now = fs"
  by (simp add: store_cached_def)

lemma ex_patch_nothing:
  "patch_candidates ex_shape DEFAULT_POLICY (ex_patch [] conf key) = ([], [])"
  by (simp add: patch_candidates_def)

text \<open>Against C2 as stated: subject \<open>u1\<close> is stored with etag \<^verbatim>\<open>"1"\<close>; a patch with an
  empty facts map hands the merge engine an empty batch, and the stored etag is
  \<^verbatim>\<open>"2"\<close> afterwards.\<close>

theorem empty_batch_no_write_counterexample:
  "map_option sr_etag (store (storage ex_fs_ada) ''u1'') = Some ''1''
   \<and> snd (patch_candidates ex_shape DEFAULT_POLICY (ex_patch [] None None)) = []
   \<and> map_option sr_etag
        (store (storage (snd (patch ex_config (quiet_schedule ex_collationKey 2 2 2) ex_fs_ada
                               (ex_patch [] None None)))) ''u1'')
       = Some ''2''"
proof -
  have cfg: "cfg_schema ex_config = Some ex_shape" "cfg_policy ex_config = DEFAULT_POLICY"
    by (simp_all add: ex_config_def)
  have lk: "lookup_cached ex_fs_ada
              (idKey_of ''patch'' (pr_userId (ex_patch [] None None))
                 (pr_idempotencyKey (ex_patch [] None None)))
              (lookupNow (quiet_schedule ex_collationKey 2 2 2)) = (None, ex_fs_ada)"
    by (simp add: idKey_of_def)
  have q: "beforePersist (quiet_schedule ex_collationKey 2 2 2) 0 (storage ex_fs_ada) = storage ex_fs_ada"
    by (simp add: quiet_schedule_def)
  have pc: "patch_candidates ex_shape (cfg_policy ex_config) (ex_patch [] None None) = ([], [])"
    by (simp add: cfg ex_patch_nothing)
  have "map_option sr_etag
        (store (storage (snd (patch ex_config (quiet_schedule ex_collationKey 2 2 2) ex_fs_ada
                               (ex_patch [] None None)))) ''u1'')
       = Some ''2''"
    by (simp add: patch_fresh [OF cfg(1) lk q pc refl refl] idKey_of_def written_def)
       (simp add: ex_fs_ada_def next_etag_1)
  moreover have "map_option sr_etag (store (storage ex_fs_ada) ''u1'') = Some ''1''"
    by (simp add: ex_fs_ada_def)
  ultimately show ?thesis by (simp add: ex_patch_nothing)
qed

section \<open>The orchestrator: idempotent replay of a patch\<close>

lemma map_of_setIdempotencyCache:
  "map_of (setIdempotencyCache cache key v now) key
     = Some \<lparr> ce_value = v, ce_expiresAt = now + IDEMPOTENCY_TTL_MS \<rparr>"
  by (simp add: setIdempotencyCache_def Let_def update_conv')

lemma lookup_cached_hit:
  assumes "map_of (idempotencyCache fs) key = Some entry" "\<not> now > ce_expiresAt entry"
  shows "lookup_cached fs (Some key) now = (Some (ce_value entry), fs)"
  using assms by (simp add: lookup_cached_def getIdempotencyCache_def)

lemma patch_hit:
  assumes "cfg_schema cfg = Some shp"
    and "lookup_cached fs (idKey_of ''patch'' (pr_userId req) (pr_idempotencyKey req))
           (lookupNow sched) = (Some r, fs1)"
  shows "patch cfg sched fs req = (Inr r, fs1)"
  using assms by (simp add: patch_def Let_def)

text \<open>A patch that misses the cache and returns has cached what it returns.\<close>

lemma patch_returns_cached:
  assumes "patch cfg sched fs req = (Inr r1, fs1)"
    and "idKey_of ''patch'' (pr_userId req) (pr_idempotencyKey req) = Some key"
    and "fst (lookup_cached fs (Some key) (lookupNow sched)) = None"
  shows "cfg_schema cfg \<noteq> None
       \<and> map_of (idempotencyCache fs1) key
           = Some \<lparr> ce_value = r1, ce_expiresAt = cacheNow sched + IDEMPOTENCY_TTL_MS \<rparr>"
proof (cases "cfg_schema cfg")
  case None
  with assms(1) show ?thesis by (simp add: patch_def)
next
  case (Some shp)
  obtain cached fs0 where lk: "lookup_cached fs (Some key) (lookupNow sched) = (cached, fs0)"
    by (cases "lookup_cached fs (Some key) (lookupNow sched)")
  with assms(3) have c: "cached = None" by simp
  obtain rej accepted where pc: "patch_candidates shp (cfg_policy cfg) req = (rej, accepted)"
    by (cases "patch_candidates shp (cfg_policy cfg) req")
  obtain outcome a' where mp:
    "mergeAndPersistWithRetry (cfg_policy cfg) shp sched (storage fs0)
       (pr_userId req) accepted True = (outcome, a')"
    by (cases "mergeAndPersistWithRetry (cfg_policy cfg) shp sched (storage fs0)
       (pr_userId req) accepted True")
  from assms(1) Some lk c pc mp assms(2) show ?thesis
    by (cases outcome)
       (auto simp: patch_def Let_def store_cached_def map_of_setIdempotencyCache)
qed

text \<open>
  Claim C7, as amended. A patch is called twice with the same subject, facts and
  \<^emph>\<open>non-empty\<close> idempotency key. The first call is not itself answered from the cache
  and returns the result \<open>r1\<close>, leaving the state \<open>fs1\<close>; the second call reads the
  clock no later than five minutes after the first call cached its result. Then the
  second call returns \<open>r1\<close> again and leaves \<open>fs1\<close> as it is: no storage write, the
  same etag, the same cache.
\<close>

theorem patch_replay_is_idempotent:
  assumes "pr_idempotencyKey req = Some k" and "k \<noteq> []"
    and "fst (lookup_cached fs (idKey_of ''patch'' (pr_userId req) (Some k))
               (lookupNow sched1)) = None"
    and "patch cfg sched1 fs req = (Inr r1, fs1)"
    and "lookupNow sched2 \<le> cacheNow sched1 + IDEMPOTENCY_TTL_MS"
  shows "patch cfg sched2 fs1 req = (Inr r1, fs1)"
proof -
  let ?key = "makeIdempotencyKey ''patch'' (pr_userId req) k"
  have ik: "idKey_of ''patch'' (pr_userId req) (pr_idempotencyKey req) = Some ?key"
    using assms(1,2) by (simp add: idKey_of_def)
  have miss: "fst (lookup_cached fs (Some ?key) (lookupNow sched1)) = None"
    using assms(2,3) by (simp add: idKey_of_def)
  from patch_returns_cached [OF assms(4) ik miss]
  obtain shp where shp: "cfg_schema cfg = Some shp"
    and ent: "map_of (idempotencyCache fs1) ?key
           = Some \<lparr> ce_value = r1, ce_expiresAt = cacheNow sched1 + IDEMPOTENCY_TTL_MS \<rparr>"
    by auto
  have "lookup_cached fs1 (Some ?key) (lookupNow sched2) = (Some r1, fs1)"
    using lookup_cached_hit [OF ent, of "lookupNow sched2"] assms(5) by simp
  with shp ik show ?thesis by (simp add: patch_hit)
qed

lemma ex_first_merge:
  "merge_attempt DEFAULT_POLICY ex_shape (quiet_schedule collationKey t1 1 t3) [ex_ada_candidate] True 0
     defaultRecord
   = \<lparr> profile = [''name'' \<mapsto> JStr ''Ada''],
        provenance = [''name'' \<mapsto>
            \<lparr> p_value = JStr ''Ada'', p_source = ''manual'', p_timestamp = 1,
               p_confidence = 1, p_inferred = False \<rparr>],
        updated = [''name'' \<mapsto> JStr ''Ada''], rejected = [],
        history = [\<lparr> h_field = ''name'', h_value = JStr ''Ada'',
                      h_previousValue = None, h_source = ''manual'',
                      h_timestamp = 1, h_confidence = 1, h_inferred = False,
                      h_action = ActSet, h_reason = None \<rparr>] \<rparr>"
  by (simp add: merge_attempt_def quiet_schedule_def mergeCandidates_def sortedCandidates_def
      array_sort_def merge_step_def Let_def ex_ada_candidate_def DEFAULT_POLICY_def
      defaultRecord_def resolvedTimestamp_def accept_def truncateValue_def allowsNull_def)

text \<open>The first patch of \<open>name = Ada\<close> without a usable idempotency key leads from a new
  fact sheet to \<open>ex_fs_ada\<close>.\<close>

lemma ex_first_patch:
  assumes "idKey_of ''patch'' ''u1'' key = None"
  shows "patch ex_config (quiet_schedule ex_collationKey 1 1 1) (new_fact_sheet None)
           (ex_patch [(''name'', JStr ''Ada'')] None key)
         = (Inr ex_ada_result, ex_fs_ada)"
proof -
  have cfg: "cfg_schema ex_config = Some ex_shape" "cfg_policy ex_config = DEFAULT_POLICY"
    by (simp_all add: ex_config_def)
  have lk: "lookup_cached (new_fact_sheet None)
              (idKey_of ''patch'' (pr_userId (ex_patch [(''name'', JStr ''Ada'')] None key))
                 (pr_idempotencyKey (ex_patch [(''name'', JStr ''Ada'')] None key)))
              (lookupNow (quiet_schedule ex_collationKey 1 1 1)) = (None, new_fact_sheet None)"
    by (simp add: assms)
  have q: "beforePersist (quiet_schedule ex_collationKey 1 1 1) 0 (storage (new_fact_sheet None))
             = storage (new_fact_sheet None)"
    by (simp add: quiet_schedule_def)
  have pc: "patch_candidates ex_shape (cfg_policy ex_config)
              (ex_patch [(''name'', JStr ''Ada'')] None key) = ([], [ex_ada_candidate])"
    by (simp add: cfg ex_patch_ada_plain)
  have rd: "read_or_default (storage (new_fact_sheet None)) ''u1'' = defaultRecord"
    by (simp add: new_fact_sheet_def read_or_default_empty)
  show ?thesis
    apply (subst patch_fresh [OF cfg(1) lk q pc refl refl])
    apply (simp add: assms cfg rd ex_first_merge)
    apply (simp add: written_def truthy_count_def ex_ada_result_def ex_fs_ada_def
        new_fact_sheet_def empty_adapter_def)
    done
qed

lemma ex_second_patch_etag:
  assumes "idKey_of ''patch'' ''u1'' key = None"
  shows "map_option sr_etag
           (store (storage (snd (patch ex_config (quiet_schedule ex_collationKey 2 2 2) ex_fs_ada
                                  (ex_patch facts conf key)))) ''u1'') = Some ''2''"
proof -
  have cfg: "cfg_schema ex_config = Some ex_shape"
    by (simp add: ex_config_def)
  have lk: "lookup_cached ex_fs_ada
              (idKey_of ''patch'' (pr_userId (ex_patch facts conf key))
                 (pr_idempotencyKey (ex_patch facts conf key)))
              (lookupNow (quiet_schedule ex_collationKey 2 2 2)) = (None, ex_fs_ada)"
    by (simp add: assms)
  have q: "beforePersist (quiet_schedule ex_collationKey 2 2 2) 0 (storage ex_fs_ada) = storage ex_fs_ada"
    by (simp add: quiet_schedule_def)
  obtain rej accepted where
    pc: "patch_candidates ex_shape (cfg_policy ex_config) (ex_patch facts conf key)
           = (rej, accepted)"
    by (cases "patch_candidates ex_shape (cfg_policy ex_config) (ex_patch facts conf key)")
  show ?thesis
    by (subst patch_fresh [OF cfg lk q pc refl refl])
       (simp add: assms written_def ex_fs_ada_def next_etag_1)
qed

theorem patch_replay_is_idempotent_witness:
  "pr_idempotencyKey (ex_patch [(''name'', JStr ''Ada'')] None (Some ''k1'')) = Some ''k1''
   \<and> ''k1'' \<noteq> []
   \<and> lookupNow (quiet_schedule ex_collationKey 2 2 2) \<le> cacheNow (quiet_schedule ex_collationKey 1 1 1) + IDEMPOTENCY_TTL_MS
   \<and> (\<exists>r1 fs1.
         patch ex_config (quiet_schedule ex_collationKey 1 1 1) (new_fact_sheet None)
           (ex_patch [(''name'', JStr ''Ada'')] None (Some ''k1'')) = (Inr r1, fs1)
       \<and> patch ex_config (quiet_schedule ex_collationKey 2 2 2) fs1
           (ex_patch [(''name'', JStr ''Ada'')] None (Some ''k1'')) = (Inr r1, fs1))"
proof -
  let ?req = "ex_patch [(''name'', JStr ''Ada'')] None (Some ''k1'')"
  have cfg: "cfg_schema ex_config = Some ex_shape"
    by (simp add: ex_config_def)
  have h1: "pr_idempotencyKey ?req = Some ''k1''" by simp
  have h2: "''k1'' \<noteq> []" by simp
  have lk: "lookup_cached (new_fact_sheet None)
              (idKey_of ''patch'' (pr_userId ?req) (pr_idempotencyKey ?req))
              (lookupNow (quiet_schedule ex_collationKey 1 1 1)) = (None, new_fact_sheet None)"
    by (simp add: idKey_of_def lookup_cached_def getIdempotencyCache_def new_fact_sheet_def)
  then have h3: "fst (lookup_cached (new_fact_sheet None)
                       (idKey_of ''patch'' (pr_userId ?req) (Some ''k1''))
                       (lookupNow (quiet_schedule ex_collationKey 1 1 1))) = None"
    by simp
  have q: "beforePersist (quiet_schedule ex_collationKey 1 1 1) 0 (storage (new_fact_sheet None))
             = storage (new_fact_sheet None)"
    by (simp add: quiet_schedule_def)
  obtain rej accepted where
    pc: "patch_candidates ex_shape (cfg_policy ex_config) ?req = (rej, accepted)"
    by (cases "patch_candidates ex_shape (cfg_policy ex_config) ?req")
  from patch_fresh [OF cfg lk q pc refl refl]
  obtain r1 fs1 where h4: "patch ex_config (quiet_schedule ex_collationKey 1 1 1) (new_fact_sheet None) ?req
                            = (Inr r1, fs1)"
    by blast
  have h5: "lookupNow (quiet_schedule ex_collationKey 2 2 2)
              \<le> cacheNow (quiet_schedule ex_collationKey 1 1 1) + IDEMPOTENCY_TTL_MS"
    by (simp add: quiet_schedule_def IDEMPOTENCY_TTL_MS_def)
  from patch_replay_is_idempotent [OF h1 h2 h3 h4 h5] h4 h1 h2 h5
  show ?thesis by blast
qed

text \<open>Against C7 as stated: the same patch twice with the idempotency key \<^verbatim>\<open>""\<close>, one
  time unit apart. The source tests the key for truthiness, so the empty key is no
  key: the second call runs the whole pipeline and writes, and the etag goes from
  \<^verbatim>\<open>"1"\<close> to \<^verbatim>\<open>"2"\<close>.\<close>

theorem patch_replay_counterexample:
  "pr_idempotencyKey (ex_patch [(''name'', JStr ''Ada'')] None (Some '''')) = Some ''''
   \<and> patch ex_config (quiet_schedule ex_collationKey 1 1 1) (new_fact_sheet None)
        (ex_patch [(''name'', JStr ''Ada'')] None (Some '''')) = (Inr ex_ada_result, ex_fs_ada)
   \<and> map_option sr_etag (store (storage ex_fs_ada) ''u1'') = Some ''1''
   \<and> lookupNow (quiet_schedule ex_collationKey 2 2 2) \<le> cacheNow (quiet_schedule ex_collationKey 1 1 1) + IDEMPOTENCY_TTL_MS
   \<and> map_option sr_etag
        (store (storage (snd (patch ex_config (quiet_schedule ex_collationKey 2 2 2) ex_fs_ada
                               (ex_patch [(''name'', JStr ''Ada'')] None (Some ''''))))) ''u1'')
       = Some ''2''"
proof -
  have nokey: "idKey_of ''patch'' ''u1'' (Some '''') = None"
    by (simp add: idKey_of_def)
  have "map_option sr_etag (store (storage ex_fs_ada) ''u1'') = Some ''1''"
    by (simp add: ex_fs_ada_def)
  moreover have "lookupNow (quiet_schedule ex_collationKey 2 2 2)
                   \<le> cacheNow (quiet_schedule ex_collationKey 1 1 1) + IDEMPOTENCY_TTL_MS"
    by (simp add: quiet_schedule_def IDEMPOTENCY_TTL_MS_def)
  ultimately show ?thesis
    using ex_first_patch [OF nokey] ex_second_patch_etag [OF nokey] by simp
qed

section \<open>The schema gate: candidates for \<open>extras\<close>\<close>

lemma sanitizeExtrasValue_not_object:
  "v \<noteq> JNull \<Longrightarrow> \<not> is_plain_object v \<Longrightarrow> sanitizeExtrasValue v policy = JUndefined"
  by (cases v) (simp_all add: sanitizeExtrasValue_def is_plain_object_def)

lemma sanitizeExtrasValue_null: "sanitizeExtrasValue JNull policy = JNull"
  by (simp add: sanitizeExtrasValue_def)

lemma sanitizeExtrasValue_empty:
  "sanitizeEntries (sanitize_params_of policy) (extrasMaxKeys policy) entries [] = []
   \<Longrightarrow> sanitizeExtrasValue (JObj entries) policy = JUndefined"
  by (simp add: sanitizeExtrasValue_def Let_def)

lemma patch_field_extras_invalid:
  assumes "shp ''extras'' = Some fieldSchema" "pr_facts req = Some facts"
    "map_of facts ''extras'' = Some v" "sanitizeExtrasValue v policy = JUndefined"
  shows "patch_field shp policy req (rej, accepted) ''extras''
     = (rej @ [\<lparr> r_field = ''extras'', r_value = v, r_reason = extras_invalid \<rparr>], accepted)"
  using assms by (simp add: patch_field_def Let_def)

lemma validate_candidate_extras_invalid:
  assumes "shp ''extras'' = Some fieldSchema" "x_field cand = ''extras''"
    "sanitizeExtrasValue (x_value cand) policy = JUndefined"
  shows "validate_candidate shp policy oreq (acc, rej, extracted) cand
     = (acc, rej @ [\<lparr> r_field = ''extras'', r_value = x_value cand,
                       r_reason = extras_invalid \<rparr>], extracted)"
  using assms by (simp add: validate_candidate_def Let_def)

lemma patch_field_extras_null:
  assumes "shp ''extras'' = Some fieldSchema" "pr_facts req = Some facts"
    "map_of facts ''extras'' = Some JNull"
  shows "(fs_parse fieldSchema JNull = None \<longrightarrow>
            patch_field shp policy req (rej, accepted) ''extras''
              = (rej @ [\<lparr> r_field = ''extras'', r_value = JNull, r_reason = schema_invalid \<rparr>],
                 accepted))
       \<and> (\<forall>parsed. fs_parse fieldSchema JNull = Some parsed \<longrightarrow>
            (\<exists>c. patch_field shp policy req (rej, accepted) ''extras'' = (rej, accepted @ [c])
                 \<and> c_field c = ''extras'' \<and> c_value c = parsed))"
  using assms by (simp add: patch_field_def Let_def sanitizeExtrasValue_null)

lemma validate_candidate_extras_null:
  assumes "shp ''extras'' = Some fieldSchema" "x_field cand = ''extras''" "x_value cand = JNull"
  shows "(fs_parse fieldSchema JNull = None \<longrightarrow>
            validate_candidate shp policy oreq (acc, rej, extracted) cand
              = (acc,
                 rej @ [\<lparr> r_field = ''extras'', r_value = JNull, r_reason = schema_invalid \<rparr>],
                 extracted))
       \<and> (\<forall>parsed. fs_parse fieldSchema JNull = Some parsed \<longrightarrow>
            (\<exists>c. validate_candidate shp policy oreq (acc, rej, extracted) cand
                   = (acc @ [c], rej, extracted(''extras'' \<mapsto> JNull))
                 \<and> c_field c = ''extras'' \<and> c_value c = parsed))"
  using assms by (simp add: validate_candidate_def Let_def sanitizeExtrasValue_null)

text \<open>
  Claim C8, as amended. The schema declares \<open>extras\<close>; the value \<open>v\<close> is offered for
  \<open>extras\<close> by a patch (in its facts) or by an observe candidate. The loop bodies of
  \<open>patch\<close> and \<open>validateCandidates\<close> then do the following.
  \<^item> If \<open>v\<close> is neither null nor a map, or is a map of which the sanitizer keeps no
    key, the whole field is rejected as \<open>extras_invalid\<close> and nothing is added to the
    candidates for the merge engine.
  \<^item> If \<open>v\<close> is null, the sanitizer leaves it null and it goes on to schema
    validation: it is handed to the merge engine (where the nullability rule applies)
    when the schema accepts null, and is rejected as \<open>schema_invalid\<close> otherwise.
\<close>

theorem extras_candidate_gate:
  assumes "shp ''extras'' = Some fieldSchema"
    and "pr_facts req = Some facts" and "map_of facts ''extras'' = Some v"
    and "x_field cand = ''extras''" and "x_value cand = v"
  shows
    "((v \<noteq> JNull \<and> \<not> is_plain_object v)
        \<or> (\<exists>entries. v = JObj entries
              \<and> sanitizeEntries (sanitize_params_of policy) (extrasMaxKeys policy) entries [] = [])
      \<longrightarrow> patch_field shp policy req (rej, accepted) ''extras''
            = (rej @ [\<lparr> r_field = ''extras'', r_value = v, r_reason = extras_invalid \<rparr>],
               accepted)
        \<and> validate_candidate shp policy oreq (accepted, rej, extracted) cand
            = (accepted,
               rej @ [\<lparr> r_field = ''extras'', r_value = v, r_reason = extras_invalid \<rparr>],
               extracted))
   \<and> (v = JNull \<longrightarrow>
        sanitizeExtrasValue v policy = JNull
        \<and> (fs_parse fieldSchema JNull = None \<longrightarrow>
              patch_field shp policy req (rej, accepted) ''extras''
                = (rej @ [\<lparr> r_field = ''extras'', r_value = JNull,
                             r_reason = schema_invalid \<rparr>], accepted)
            \<and> validate_candidate shp policy oreq (accepted, rej, extracted) cand
                = (accepted,
                   rej @ [\<lparr> r_field = ''extras'', r_value = JNull,
                             r_reason = schema_invalid \<rparr>], extracted))
        \<and> (\<forall>parsed. fs_parse fieldSchema JNull = Some parsed \<longrightarrow>
              (\<exists>c. patch_field shp policy req (rej, accepted) ''extras''
                     = (rej, accepted @ [c])
                   \<and> c_field c = ''extras'' \<and> c_value c = parsed)
            \<and> (\<exists>c. validate_candidate shp policy oreq (accepted, rej, extracted) cand
                     = (accepted @ [c], rej, extracted(''extras'' \<mapsto> JNull))
                   \<and> c_field c = ''extras'' \<and> c_value c = parsed)))"
proof (intro conjI impI)
  assume "(v \<noteq> JNull \<and> \<not> is_plain_object v)
        \<or> (\<exists>entries. v = JObj entries
              \<and> sanitizeEntries (sanitize_params_of policy) (extrasMaxKeys policy) entries [] = [])"
  then have u: "sanitizeExtrasValue v policy = JUndefined"
    by (auto simp: sanitizeExtrasValue_not_object sanitizeExtrasValue_empty)
  show "patch_field shp policy req (rej, accepted) ''extras''
            = (rej @ [\<lparr> r_field = ''extras'', r_value = v, r_reason = extras_invalid \<rparr>],
               accepted)"
    by (rule patch_field_extras_invalid [where shp = shp, OF assms(1,2,3) u])
  show "validate_candidate shp policy oreq (accepted, rej, extracted) cand
            = (accepted,
               rej @ [\<lparr> r_field = ''extras'', r_value = v, r_reason = extras_invalid \<rparr>],
               extracted)"
    using validate_candidate_extras_invalid
        [where shp = shp and policy = policy and oreq = oreq and acc = accepted and rej = rej
           and extracted = extracted, OF assms(1,4)]
      u assms(5) by simp
next
  assume n: "v = JNull"
  then show "sanitizeExtrasValue v policy = JNull"
    by (simp add: sanitizeExtrasValue_null)
  from n assms(3,5) have f: "map_of facts ''extras'' = Some JNull" and c: "x_value cand = JNull"
    by simp_all
  note P = patch_field_extras_null
    [where shp = shp and policy = policy and rej = rej and accepted = accepted,
     OF assms(1,2) f]
  note V = validate_candidate_extras_null
    [where shp = shp and policy = policy and oreq = oreq and acc = accepted and rej = rej
       and extracted = extracted, OF assms(1,4) c]
  { assume "fs_parse fieldSchema JNull = None"
    with P V show "patch_field shp policy req (rej, accepted) ''extras''
                = (rej @ [\<lparr> r_field = ''extras'', r_value = JNull,
                             r_reason = schema_invalid \<rparr>], accepted)"
      and "validate_candidate shp policy oreq (accepted, rej, extracted) cand
                = (accepted,
                   rej @ [\<lparr> r_field = ''extras'', r_value = JNull,
                             r_reason = schema_invalid \<rparr>], extracted)"
      by blast+ }
  show "\<forall>parsed. fs_parse fieldSchema JNull = Some parsed \<longrightarrow>
              (\<exists>c. patch_field shp policy req (rej, accepted) ''extras''
                     = (rej, accepted @ [c])
                   \<and> c_field c = ''extras'' \<and> c_value c = parsed)
            \<and> (\<exists>c. validate_candidate shp policy oreq (accepted, rej, extracted) cand
                     = (accepted @ [c], rej, extracted(''extras'' \<mapsto> JNull))
                   \<and> c_field c = ''extras'' \<and> c_value c = parsed)"
    using P V by blast
qed

lemma ex_invalid_key_dropped:
  "sanitizeEntries (sanitize_params_of DEFAULT_POLICY) (extrasMaxKeys DEFAULT_POLICY)
     [(''invalid-key@test'', JStr ''x'')] [] = []"
  by (simp add: sanitize_params_of_def DEFAULT_POLICY_def defaultKeyPattern_def isWordChar_def)

theorem extras_candidate_gate_witness:
  "ex_shape ''extras'' = Some ex_optional_record_schema
   \<and> JNum 5 \<noteq> JNull \<and> \<not> is_plain_object (JNum 5)
   \<and> patch_field ex_shape DEFAULT_POLICY (ex_patch [(''extras'', JNum 5)] None None) ([], [])
        ''extras''
       = ([\<lparr> r_field = ''extras'', r_value = JNum 5, r_reason = extras_invalid \<rparr>], [])
   \<and> validate_candidate ex_shape DEFAULT_POLICY ex_observe_request ([], [], Map.empty)
        (ex_extras_candidate (JObj [(''invalid-key@test'', JStr ''x'')]))
       = ([], [\<lparr> r_field = ''extras'', r_value = JObj [(''invalid-key@test'', JStr ''x'')],
                  r_reason = extras_invalid \<rparr>], Map.empty)
   \<and> fs_parse ex_optional_record_schema JNull = None
   \<and> patch_field ex_shape DEFAULT_POLICY (ex_patch [(''extras'', JNull)] None None) ([], [])
        ''extras''
       = ([\<lparr> r_field = ''extras'', r_value = JNull, r_reason = schema_invalid \<rparr>], [])
   \<and> fs_parse ex_nullable_record_schema JNull = Some JNull
   \<and> (\<exists>c. patch_field ex_nullable_shape DEFAULT_POLICY (ex_patch [(''extras'', JNull)] None None)
              ([], []) ''extras'' = ([], [c])
          \<and> c_field c = ''extras'' \<and> c_value c = JNull)"
proof -
  have s1: "ex_shape ''extras'' = Some ex_optional_record_schema"
    by (simp add: ex_shape_def)
  have s2: "ex_nullable_shape ''extras'' = Some ex_nullable_record_schema"
    by (simp add: ex_nullable_shape_def)
  have xf: "\<And>v. x_field (ex_extras_candidate v) = ''extras''"
    and xv: "\<And>v. x_value (ex_extras_candidate v) = v"
    by (simp_all add: ex_extras_candidate_def)
  have pf: "\<And>v. pr_facts (ex_patch [(''extras'', v)] None None) = Some [(''extras'', v)]"
    and mf: "\<And>v. map_of [(''extras'', v)] ''extras'' = Some v"
    by simp_all
  have a1: "JNum 5 \<noteq> JNull \<and> \<not> is_plain_object (JNum 5)"
    by (simp add: is_plain_object_def)
  have p1: "fs_parse ex_optional_record_schema JNull = None"
    by (simp add: ex_optional_record_schema_def)
  have p2: "fs_parse ex_nullable_record_schema JNull = Some JNull"
    by (simp add: ex_nullable_record_schema_def)
  from extras_candidate_gate
         [where shp = ex_shape and policy = DEFAULT_POLICY and rej = "[]" and accepted = "[]"
            and oreq = ex_observe_request and extracted = Map.empty, OF s1 pf mf xf xv] a1
  have r1: "patch_field ex_shape DEFAULT_POLICY (ex_patch [(''extras'', JNum 5)] None None)
              ([], []) ''extras''
            = ([\<lparr> r_field = ''extras'', r_value = JNum 5, r_reason = extras_invalid \<rparr>], [])"
    by simp
  from extras_candidate_gate
         [where shp = ex_shape and policy = DEFAULT_POLICY and rej = "[]" and accepted = "[]"
            and oreq = ex_observe_request and extracted = Map.empty
            and v = "JObj [(''invalid-key@test'', JStr ''x'')]", OF s1 pf mf xf xv]
       ex_invalid_key_dropped
  have r2: "validate_candidate ex_shape DEFAULT_POLICY ex_observe_request ([], [], Map.empty)
              (ex_extras_candidate (JObj [(''invalid-key@test'', JStr ''x'')]))
            = ([], [\<lparr> r_field = ''extras'', r_value = JObj [(''invalid-key@test'', JStr ''x'')],
                       r_reason = extras_invalid \<rparr>], Map.empty)"
    by simp
  from extras_candidate_gate
         [where shp = ex_shape and policy = DEFAULT_POLICY and rej = "[]" and accepted = "[]"
            and oreq = ex_observe_request and extracted = Map.empty and v = JNull,
          OF s1 pf mf xf xv] p1
  have r3: "patch_field ex_shape DEFAULT_POLICY (ex_patch [(''extras'', JNull)] None None)
              ([], []) ''extras''
            = ([\<lparr> r_field = ''extras'', r_value = JNull, r_reason = schema_invalid \<rparr>], [])"
    by simp
  from extras_candidate_gate
         [where shp = ex_nullable_shape and policy = DEFAULT_POLICY and rej = "[]"
            and accepted = "[]" and oreq = ex_observe_request and extracted = Map.empty
            and v = JNull, OF s2 pf mf xf xv] p2
  have r4: "\<exists>c. patch_field ex_nullable_shape DEFAULT_POLICY
                   (ex_patch [(''extras'', JNull)] None None) ([], []) ''extras'' = ([], [c])
               \<and> c_field c = ''extras'' \<and> c_value c = JNull"
    by simp
  from s1 a1 r1 r2 p1 r3 p2 r4 show ?thesis by blast
qed

text \<open>Against C8 as stated. (1) The schema of the tests declares \<open>extras\<close> as an optional
  record, which does not admit null: a null \<open>extras\<close> is rejected as \<open>schema_invalid\<close>
  by the schema gate and never reaches the merge engine. (2) Under a schema that does
  not declare \<open>extras\<close>, a number offered for \<open>extras\<close> is rejected as \<open>unknown_field\<close>,
  not \<open>extras_invalid\<close>.\<close>

theorem extras_candidate_counterexample:
  "patch_candidates ex_shape DEFAULT_POLICY (ex_patch [(''extras'', JNull)] None None)
     = ([\<lparr> r_field = ''extras'', r_value = JNull, r_reason = schema_invalid \<rparr>], [])
   \<and> patch_candidates [''name'' \<mapsto> ex_string_schema] DEFAULT_POLICY
         (ex_patch [(''extras'', JNum 5)] None None)
     = ([\<lparr> r_field = ''extras'', r_value = JNum 5, r_reason = unknown_field \<rparr>], [])"
  by (simp add: patch_candidates_def patch_field_def ex_shape_def
      ex_optional_record_schema_def sanitizeExtrasValue_null)

section \<open>Stored provenance: confidence\<close>

lemma foldl_invariant_mem:
  "(\<And>st c. c \<in> set cs \<Longrightarrow> P st \<Longrightarrow> P (f st c)) \<Longrightarrow> P st \<Longrightarrow> P (foldl f st cs)"
  by (induction cs arbitrary: st) auto

lemma set_insort_cmp: "set (insort_cmp cmp x ys) = insert x (set ys)"
  by (induction ys) auto

lemma set_sortedCandidates [simp]:
  "set (sortedCandidates collationKey policy nowTs cs) = set cs"
  unfolding sortedCandidates_def array_sort_def
  by (induction cs) (simp_all add: set_insort_cmp)

lemma merge_step_conf_ok:
  "prov_conf_ok (provenance st) \<Longrightarrow> conf_ok (c_confidence c)
   \<Longrightarrow> prov_conf_ok (provenance (merge_step policy allowNull skip nowTs st c))"
  using merge_step_cases [of policy allowNull skip nowTs st c]
  by (auto simp: prov_conf_ok_def split: if_splits)

lemma mergeCandidates_conf_ok:
  assumes "prov_conf_ok (mi_provenance inp)" "cands_conf_ok (mi_candidates inp)"
  shows "prov_conf_ok (provenance (mergeCandidates collationKey nowTs inp))"
  unfolding mergeCandidates_def
  by (rule foldl_invariant_mem [where P = "\<lambda>st. prov_conf_ok (provenance st)"])
     (use assms in \<open>auto simp: cands_conf_ok_def intro: merge_step_conf_ok\<close>)

lemma read_or_default_conf_ok:
  "store_conf_ok a \<Longrightarrow> prov_conf_ok (sr_provenance (read_or_default a u))"
  by (auto simp: store_conf_ok_def read_or_default_def MemoryAdapter_get_def defaultRecord_def
      prov_conf_ok_def split: option.splits)

lemma written_conf_ok:
  "store_conf_ok a \<Longrightarrow> prov_conf_ok (provenance m) \<Longrightarrow> store_conf_ok (written a u m)"
  by (auto simp: store_conf_ok_def written_def)

lemma quiet_merge_conf_ok:
  assumes "store_conf_ok a" "cands_conf_ok cs" "beforePersist sched 0 a = a"
  shows "store_conf_ok (snd (mergeAndPersistWithRetry policy shp sched a u cs skip))"
  using assms
  by (simp add: quiet_first_attempt written_conf_ok merge_attempt_def mergeCandidates_conf_ok
      read_or_default_conf_ok)

lemma patch_field_conf_ok:
  "opt_conf_ok (pr_confidence req) \<Longrightarrow> cands_conf_ok (snd acc)
   \<Longrightarrow> cands_conf_ok (snd (patch_field shp policy req acc field))"
  by (cases acc)
     (auto simp: patch_field_def Let_def cands_conf_ok_def opt_conf_ok_def conf_ok_def
       split: option.splits)

lemma patch_candidates_conf_ok:
  "opt_conf_ok (pr_confidence req) \<Longrightarrow> cands_conf_ok (snd (patch_candidates shp policy req))"
  unfolding patch_candidates_def
proof (rule foldl_invariant [where P = "\<lambda>acc. cands_conf_ok (snd acc)"])
  show "cands_conf_ok (snd ([], []))" by (simp add: cands_conf_ok_def)
qed (rule patch_field_conf_ok)

lemma validate_candidate_conf_ok:
  "opt_conf_ok (or_confidence req) \<Longrightarrow> opt_conf_ok (x_confidence cand) \<Longrightarrow> cands_conf_ok (fst acc)
   \<Longrightarrow> cands_conf_ok (fst (validate_candidate shp policy req acc cand))"
  by (cases acc)
     (auto simp: validate_candidate_def Let_def cands_conf_ok_def opt_conf_ok_def conf_ok_def
       split: option.splits)

lemma validateCandidates_conf_ok:
  "opt_conf_ok (or_confidence req) \<Longrightarrow> \<forall>c \<in> set cands. opt_conf_ok (x_confidence c)
   \<Longrightarrow> cands_conf_ok (fst (validateCandidates shp policy cands req))"
  unfolding validateCandidates_def
proof (rule foldl_invariant_mem [where P = "\<lambda>acc. cands_conf_ok (fst acc)"])
  show "cands_conf_ok (fst ([], [], Map.empty))" by (simp add: cands_conf_ok_def)
qed (auto intro: validate_candidate_conf_ok)

lemma storage_lookup_cached [simp]: "storage (snd (lookup_cached fs k now)) = storage fs"
  by (auto simp: lookup_cached_def split: option.splits prod.splits)

lemma storage_store_cached [simp]: "storage (store_cached fs k v now) = storage fs"
  by (auto simp: store_cached_def split: option.splits)

lemma patch_conf_ok:
  assumes "store_conf_ok (storage fs)" "opt_conf_ok (pr_confidence req)"
    and "\<And>a. beforePersist sched 0 a = a"
  shows "store_conf_ok (storage (snd (patch cfg sched fs req)))"
proof (cases "cfg_schema cfg")
  case None
  with assms(1) show ?thesis by (simp add: patch_def)
next
  case (Some shp)
  obtain cached fs1 where lk: "lookup_cached fs (idKey_of ''patch'' (pr_userId req) (pr_idempotencyKey req)) (lookupNow sched) = (cached, fs1)"
    by (cases "lookup_cached fs (idKey_of ''patch'' (pr_userId req) (pr_idempotencyKey req)) (lookupNow sched)")
  then have st1: "storage fs1 = storage fs"
    using storage_lookup_cached [of fs "idKey_of ''patch'' (pr_userId req) (pr_idempotencyKey req)" "lookupNow sched"] by simp
  show ?thesis
  proof (cases cached)
    case (Some r)
    with \<open>cfg_schema cfg = Some shp\<close> lk st1 assms(1) show ?thesis
      by (simp add: patch_def)
  next
    case None
    obtain rej accepted where pc: "patch_candidates shp (cfg_policy cfg) req = (rej, accepted)"
      by (cases "patch_candidates shp (cfg_policy cfg) req")
    with patch_candidates_conf_ok [OF assms(2), of shp "cfg_policy cfg"]
    have ok: "cands_conf_ok accepted" by simp
    from quiet_merge_conf_ok [OF _ ok assms(3), of "storage fs1" "cfg_policy cfg" shp "pr_userId req" True]
      assms(1) st1
    have "store_conf_ok (snd (mergeAndPersistWithRetry (cfg_policy cfg) shp sched (storage fs1) (pr_userId req) accepted True))"
      by simp
    with \<open>cfg_schema cfg = Some shp\<close> lk None pc show ?thesis
      by (auto simp: patch_def Let_def split: prod.splits sum.splits)
  qed
qed


lemma processObserve_conf_ok:
  assumes "store_conf_ok (storage fs)" "opt_conf_ok (or_confidence req)"
    and "case extraction of Inl err \<Rightarrow> True
         | Inr ex \<Rightarrow> (\<forall>c \<in> set (er_candidates ex). opt_conf_ok (x_confidence c))"
    and "\<And>a. beforePersist sched 0 a = a"
  shows "store_conf_ok (storage (snd (processObserve cfg shp sched fs req idKey rid extraction)))"
proof (cases extraction)
  case (Inl err)
  with assms(1) show ?thesis by (simp add: processObserve_def)
next
  case (Inr ex)
  obtain accepted rej extracted where
    vc: "validateCandidates shp (cfg_policy cfg) (er_candidates ex) req = (accepted, rej, extracted)"
    by (cases "validateCandidates shp (cfg_policy cfg) (er_candidates ex) req")
  from assms(3) Inr have "\<forall>c \<in> set (er_candidates ex). opt_conf_ok (x_confidence c)"
    by simp
  from validateCandidates_conf_ok [OF assms(2) this, of shp "cfg_policy cfg"] vc
  have ok: "cands_conf_ok accepted" by simp
  from quiet_merge_conf_ok [OF assms(1) ok assms(4), of "cfg_policy cfg" shp "or_userId req" False]
  have "store_conf_ok (snd (mergeAndPersistWithRetry (cfg_policy cfg) shp sched (storage fs)
                              (or_userId req) accepted False))" .
  with Inr vc show ?thesis
    by (auto simp: processObserve_def Let_def split: prod.splits sum.splits)
qed

lemma observe_conf_ok:
  assumes "store_conf_ok (storage fs)" "opt_conf_ok (or_confidence req)"
    and "case extraction of Inl err \<Rightarrow> True
         | Inr ex \<Rightarrow> (\<forall>c \<in> set (er_candidates ex). opt_conf_ok (x_confidence c))"
    and "\<And>a. beforePersist sched 0 a = a"
  shows "store_conf_ok (storage (snd (observe cfg sched fs req rid extraction)))"
proof (cases "cfg_schema cfg")
  case None
  with assms(1) show ?thesis by (simp add: observe_def)
next
  case (Some shp)
  let ?k = "idKey_of ''observe'' (or_userId req) (or_idempotencyKey req)"
  obtain cached fs1 where lk: "lookup_cached fs ?k (lookupNow sched) = (cached, fs1)"
    by (cases "lookup_cached fs ?k (lookupNow sched)")
  then have st1: "storage fs1 = storage fs"
    using storage_lookup_cached [of fs ?k "lookupNow sched"] by simp
  with assms(1) have ok1: "store_conf_ok (storage fs1)" by simp
  note P = processObserve_conf_ok [OF ok1 assms(2,3,4), of cfg shp ?k rid]
  show ?thesis
    using Some lk assms(1) st1 P
    by (auto simp: observe_def Let_def split: option.splits prod.splits)
qed

lemma apply_operation_conf_ok:
  "store_conf_ok (storage fs) \<Longrightarrow> op_conf_ok op \<Longrightarrow> store_conf_ok (storage (apply_operation collationKey cfg fs op))"
  by (cases op) (auto intro!: patch_conf_ok observe_conf_ok simp: quiet_schedule_def)

lemma ex_merge_with_confidence:
  assumes "minConfidence DEFAULT_POLICY \<le> x"
  shows "map_option p_confidence
     (provenance (merge_attempt DEFAULT_POLICY ex_shape (quiet_schedule ex_collationKey 1 1 1)
        [ex_ada_candidate\<lparr> c_confidence := x \<rparr>] True 0 defaultRecord) ''name'') = Some x"
  using assms
  by (simp add: merge_attempt_def quiet_schedule_def mergeCandidates_def sortedCandidates_def
      array_sort_def merge_step_def Let_def ex_ada_candidate_def
      defaultRecord_def resolvedTimestamp_def)

lemma ex_patch_with_confidence:
  assumes "minConfidence DEFAULT_POLICY \<le> x"
  shows "stored_confidence
           (run_operations ex_collationKey ex_config (new_fact_sheet None)
              [PatchOp (ex_patch [(''name'', JStr ''Ada'')] (Some x) None) 1 1 1])
           ''u1'' ''name'' = Some x"
proof -
  let ?req = "ex_patch [(''name'', JStr ''Ada'')] (Some x) None"
  have cfg: "cfg_schema ex_config = Some ex_shape" "cfg_policy ex_config = DEFAULT_POLICY"
    by (simp_all add: ex_config_def)
  have lk: "lookup_cached (new_fact_sheet None)
              (idKey_of ''patch'' (pr_userId ?req) (pr_idempotencyKey ?req))
              (lookupNow (quiet_schedule ex_collationKey 1 1 1)) = (None, new_fact_sheet None)"
    by (simp add: idKey_of_def)
  have q: "beforePersist (quiet_schedule ex_collationKey 1 1 1) 0 (storage (new_fact_sheet None))
             = storage (new_fact_sheet None)"
    by (simp add: quiet_schedule_def)
  have pc: "patch_candidates ex_shape (cfg_policy ex_config) ?req
              = ([], [ex_ada_candidate\<lparr> c_confidence := x \<rparr>])"
    by (simp add: cfg ex_patch_ada_candidates)
  have rd: "read_or_default (storage (new_fact_sheet None)) ''u1'' = defaultRecord"
    by (simp add: new_fact_sheet_def read_or_default_empty)
  show ?thesis
    unfolding run_operations_def stored_confidence_def
    apply simp
    apply (subst patch_fresh [OF cfg(1) lk q pc refl refl])
    apply (simp add: idKey_of_def cfg rd written_def ex_merge_with_confidence [OF assms])
    done
qed

text \<open>
  The range of the stored confidences under an input contract. Start from a new fact
  sheet over an empty in-memory adapter and run any sequence of observe and patch
  calls, one after the other. If every confidence supplied with a call (the request's,
  and each extracted candidate's) lies in \<open>[0, 1]\<close>, then in every stored record each
  provenance entry's confidence lies in \<open>[0, 1]\<close>.
\<close>

theorem stored_confidence_in_unit_interval:
  assumes "\<forall>op \<in> set ops. op_conf_ok op"
  shows "store_conf_ok (storage (run_operations collationKey cfg (new_fact_sheet mh) ops))"
  unfolding run_operations_def
proof (rule foldl_invariant_mem [where P = "\<lambda>fs. store_conf_ok (storage fs)"])
  show "store_conf_ok (storage (new_fact_sheet mh))"
    by (simp add: store_conf_ok_def new_fact_sheet_def empty_adapter_def)
qed (use assms in \<open>auto intro: apply_operation_conf_ok\<close>)

theorem stored_confidence_in_unit_interval_witness:
  "op_conf_ok (PatchOp (ex_patch [(''name'', JStr ''Ada'')] (Some (1 / 2)) None) 1 1 1)
   \<and> store_conf_ok (storage (run_operations ex_collationKey ex_config (new_fact_sheet None)
        [PatchOp (ex_patch [(''name'', JStr ''Ada'')] (Some (1 / 2)) None) 1 1 1]))
   \<and> stored_confidence
        (run_operations ex_collationKey ex_config (new_fact_sheet None)
           [PatchOp (ex_patch [(''name'', JStr ''Ada'')] (Some (1 / 2)) None) 1 1 1])
        ''u1'' ''name'' = Some (1 / 2)"
proof -
  have h: "\<forall>op \<in> set [PatchOp (ex_patch [(''name'', JStr ''Ada'')] (Some (1 / 2)) None) 1 1 1].
             op_conf_ok op"
    by (simp add: opt_conf_ok_def conf_ok_def)
  have m: "minConfidence DEFAULT_POLICY \<le> 1 / 2"
    by (simp add: DEFAULT_POLICY_def)
  have h': "op_conf_ok (PatchOp (ex_patch [(''name'', JStr ''Ada'')] (Some (1 / 2)) None) 1 1 1)"
    using h by simp
  from stored_confidence_in_unit_interval
         [OF h, where collationKey = ex_collationKey and cfg = ex_config and mh = None]
    ex_patch_with_confidence [OF m] h'
  show ?thesis by blast
qed

text \<open>
  Claim C4, what the code does. The claim says that in every stored record reachable by
  observe and patch calls each provenance entry's confidence lies in \<open>[0, 1]\<close>. The
  orchestrator neither clamps nor checks the confidence of a request: one patch with
  \<open>confidence = 5\<close> on a new fact sheet stores a provenance entry with confidence 5.
  (Only the built-in extractor clamps, with \<^verbatim>\<open>clamp01\<close>, the confidences it parses.)
\<close>

theorem patch_stores_confidence_above_one:
  "stored_confidence
     (run_operations ex_collationKey ex_config (new_fact_sheet None)
        [PatchOp (ex_patch [(''name'', JStr ''Ada'')] (Some 5) None) 1 1 1])
     ''u1'' ''name'' = Some 5
   \<and> \<not> conf_ok 5"
proof -
  have m: "minConfidence DEFAULT_POLICY \<le> 5"
    by (simp add: DEFAULT_POLICY_def)
  show ?thesis
    using ex_patch_with_confidence [OF m] by (simp add: conf_ok_def)
qed

end
